theory Spec2Isabelle
  imports Complex_Main
begin

section \<open>The provider dispatcher of tools/llm_api.py\<close>

text \<open>
  The module is a facade over three families of provider clients (OpenAI-style chat
  completions, Anthropic messages, Gemini) which reports each completed call to a
  process-wide token tracker. Everything the Python does beyond returning a value is
  explicit here: an exception is a value of \<open>exn\<close>, the process-wide state is a
  \<open>world\<close> passed through every function, and the libraries the module calls are the
  fields of a \<open>collaborators\<close> record, about which nothing is assumed.

  A \<open>string\<close> stands for a Python \<open>str\<close> whose code points are below 256; Python's
  \<open>None\<close> is \<open>None\<close> of an option type.
\<close>

subsection \<open>Python values\<close>

datatype exn = ValueError string | AttributeError string | OtherException string string

fun str_exn :: "exn \<Rightarrow> string" where
  "str_exn (ValueError msg) = msg"
| "str_exn (AttributeError msg) = msg"
| "str_exn (OtherException cls msg) = msg"

text \<open>Truth value of an optional string: \<open>None\<close> and the empty string are false.\<close>

fun truthy :: "string option \<Rightarrow> bool" where
  "truthy None = False"
| "truthy (Some s) = (s \<noteq> [])"

text \<open>
  \<open>str.lower\<close> on code points below 256: the letters A to Z and the upper-case letters of
  Latin-1 (192 to 222 without the multiplication sign 215) move up by 32.
\<close>

definition lower_char :: "char \<Rightarrow> char" where
  "lower_char c =
     (let n = (of_char c :: nat)
      in if (65 \<le> n \<and> n \<le> 90) \<or> (192 \<le> n \<and> n \<le> 222 \<and> n \<noteq> 215)
         then char_of (n + 32) else c)"

definition lower :: "string \<Rightarrow> string" where
  "lower s = map lower_char s"

definition startswith :: "string \<Rightarrow> string \<Rightarrow> bool" where
  "startswith s p = (take (length p) s = p)"

subsection \<open>Clients, requests and responses\<close>

text \<open>The client objects \<open>create_llm_client\<close> builds, with the arguments it gives them.\<close>

datatype client =
    OpenAI string "string option"
  | AzureOpenAI string string string
  | Anthropic string
  | Genai

datatype content_part =
    TextPart string
  | ImageUrlPart string
  | ImagePart string string

text \<open>In a message, \<open>parts\<close> is the list under the key \<open>content\<close>.\<close>

record message =
  role :: string
  parts :: "content_part list"

record chat_kwargs =
  kw_model :: "string option"
  kw_messages :: "message list"
  kw_temperature :: "rat option"
  kw_response_format :: "string option"
  kw_reasoning_effort :: "string option"

record messages_kwargs =
  mk_model :: "string option"
  mk_max_tokens :: int
  mk_messages :: "message list"

text \<open>
  A provider response is the object whose attributes the code reads:
  \<open>response.usage.prompt_tokens\<close>, \<open>response.choices[0].message.content\<close> and so on.
\<close>

record chat_completion =
  usage_prompt_tokens :: int
  usage_completion_tokens :: int
  usage_total_tokens :: int
  usage_reasoning_tokens :: "int option"
  choice_content :: string

record anthropic_message =
  usage_input_tokens :: int
  usage_output_tokens :: int
  content_text :: string

subsection \<open>The token tracker's value types\<close>

record token_usage =
  prompt_tokens :: int
  completion_tokens :: int
  total_tokens :: int
  reasoning_tokens :: "int option"

record api_response =
  content :: string
  token_usage :: token_usage
  cost :: rat
  thinking_time :: rat
  provider :: string
  model :: "string option"

text \<open>
  Modelled from the spec: the constructors of \<open>TokenUsage\<close> and \<open>APIResponse\<close>, declared
  in tools/token_tracker.py, which is not among the sources. The spec has token counts
  and cost non-negative, and a record with a negative one rejected with a validation
  error when it is constructed. The fields are the keyword arguments \<open>query_llm\<close> passes;
  \<open>reasoning_tokens\<close> is optional and absent by default.
\<close>

definition TokenUsage :: "int \<Rightarrow> int \<Rightarrow> int \<Rightarrow> int option \<Rightarrow> exn + token_usage" where
  "TokenUsage p c t r =
     (if p < 0 \<or> c < 0 \<or> t < 0 \<or> (case r of None \<Rightarrow> False | Some x \<Rightarrow> x < 0)
      then Inl (ValueError ''negative token count'')
      else Inr \<lparr>prompt_tokens = p, completion_tokens = c, total_tokens = t,
                reasoning_tokens = r\<rparr>)"

definition APIResponse ::
  "string \<Rightarrow> token_usage \<Rightarrow> rat \<Rightarrow> rat \<Rightarrow> string \<Rightarrow> string option \<Rightarrow> exn + api_response" where
  "APIResponse txt tu c tt prov m =
     (if c < 0 then Inl (ValueError ''negative cost'')
      else Inr \<lparr>content = txt, token_usage = tu, cost = c, thinking_time = tt,
                provider = prov, model = m\<rparr>)"

subsection \<open>The world and the collaborators\<close>

text \<open>
  Every call that leaves the module is written to the trace before it is made, in call
  order. The ledger is the token tracker's state, of a type the module never looks into;
  \<open>ticks\<close> counts the readings of the clock.
\<close>

datatype event =
    Stderr string
  | Stdout string
  | GenaiConfigure string
  | ChatCompletionsCreate client chat_kwargs
  | MessagesCreate client messages_kwargs
  | GenerateContent client "string option" string
  | CalculateOpenAICost int int "string option"
  | CalculateClaudeCost int int "string option"
  | TrackRequest api_response

record 'l world =
  trace :: "event list"
  ledger :: 'l
  ticks :: nat

text \<open>
  What the module imports: the environment, the clock, \<open>mimetypes\<close>, the file system,
  \<open>base64\<close>, the three provider calls (each returns a response or raises), the token
  tracker's two cost calculators (each returns a cost or raises) and its
  \<open>track_request\<close>, which changes the ledger and may raise.
\<close>

record 'l collaborators =
  getenv :: "string \<Rightarrow> string option"
  clock :: "nat \<Rightarrow> rat"
  guess_type :: "string \<Rightarrow> string option"
  read_file :: "string \<Rightarrow> exn + string"
  b64encode :: "string \<Rightarrow> string"
  chat_completions_create :: "client \<Rightarrow> chat_kwargs \<Rightarrow> exn + chat_completion"
  messages_create :: "client \<Rightarrow> messages_kwargs \<Rightarrow> exn + anthropic_message"
  generate_content :: "client \<Rightarrow> string option \<Rightarrow> string \<Rightarrow> exn + string"
  calculate_openai_cost :: "int \<Rightarrow> int \<Rightarrow> string option \<Rightarrow> exn + rat"
  calculate_claude_cost :: "int \<Rightarrow> int \<Rightarrow> string option \<Rightarrow> exn + rat"
  track_request :: "api_response \<Rightarrow> 'l \<Rightarrow> exn option \<times> 'l"

definition emit :: "event \<Rightarrow> 'l world \<Rightarrow> 'l world" where
  "emit ev w = w\<lparr>trace := trace w @ [ev]\<rparr>"

definition time_time :: "'l collaborators \<Rightarrow> 'l world \<Rightarrow> rat \<times> 'l world" where
  "time_time d w = (clock d (ticks w), w\<lparr>ticks := Suc (ticks w)\<rparr>)"

text \<open>The events a run adds to the trace: those of \<open>w'\<close> beyond the trace of \<open>w\<close>.\<close>

definition events_since :: "'l world \<Rightarrow> 'l world \<Rightarrow> event list" where
  "events_since w w' = drop (length (trace w)) (trace w')"

definition getenv_default :: "'l collaborators \<Rightarrow> string \<Rightarrow> string \<Rightarrow> string" where
  "getenv_default d key dflt = (case getenv d key of None \<Rightarrow> dflt | Some v \<Rightarrow> v)"

subsection \<open>Encoding an image file\<close>

definition encode_image_file :: "'l collaborators \<Rightarrow> string \<Rightarrow> exn + (string \<times> string)" where
  "encode_image_file d image_path =
     (let mime_type = (case guess_type d image_path of
                         None \<Rightarrow> ''image/png''
                       | Some t \<Rightarrow> if t = [] then ''image/png'' else t)
      in case read_file d image_path of
           Inl e \<Rightarrow> Inl e
         | Inr bytes \<Rightarrow> Inr (b64encode d bytes, mime_type))"

subsection \<open>Creating a client\<close>

definition create_llm_client ::
  "'l collaborators \<Rightarrow> string \<Rightarrow> 'l world \<Rightarrow> (exn + client) \<times> 'l world" where
  "create_llm_client d prov w =
     (if prov = ''openai'' then
        (let api_key = getenv d ''OPENAI_API_KEY''
         in if \<not> truthy api_key
            then (Inl (ValueError ''OPENAI_API_KEY not found in environment variables''), w)
            else (Inr (OpenAI (the api_key) None), w))
      else if prov = ''azure'' then
        (let api_key = getenv d ''AZURE_OPENAI_API_KEY''
         in if \<not> truthy api_key
            then (Inl (ValueError ''AZURE_OPENAI_API_KEY not found in environment variables''), w)
            else (Inr (AzureOpenAI (the api_key) ''2024-08-01-preview''
                         ''https://msopenai.openai.azure.com''), w))
      else if prov = ''deepseek'' then
        (let api_key = getenv d ''DEEPSEEK_API_KEY''
         in if \<not> truthy api_key
            then (Inl (ValueError ''DEEPSEEK_API_KEY not found in environment variables''), w)
            else (Inr (OpenAI (the api_key) (Some ''https://api.deepseek.com/v1'')), w))
      else if prov = ''anthropic'' then
        (let api_key = getenv d ''ANTHROPIC_API_KEY''
         in if \<not> truthy api_key
            then (Inl (ValueError ''ANTHROPIC_API_KEY not found in environment variables''), w)
            else (Inr (Anthropic (the api_key)), w))
      else if prov = ''gemini'' then
        (let api_key = getenv d ''GOOGLE_API_KEY''
         in if \<not> truthy api_key
            then (Inl (ValueError ''GOOGLE_API_KEY not found in environment variables''), w)
            else (Inr Genai, emit (GenaiConfigure (the api_key)) w))
      else if prov = ''local'' then
        (Inr (OpenAI ''not-needed'' (Some ''http://192.168.180.137:8006/v1'')), w)
      else (Inl (ValueError (''Unsupported provider: '' @ prov)), w))"

subsection \<open>Querying a provider\<close>

text \<open>The default model of each provider, when the caller gives none.\<close>

definition default_model :: "'l collaborators \<Rightarrow> string \<Rightarrow> string option" where
  "default_model d prov =
     (if prov = ''openai'' then Some ''gpt-4o''
      else if prov = ''azure'' then
        Some (getenv_default d ''AZURE_OPENAI_MODEL_DEPLOYMENT'' ''gpt-4o-ms'')
      else if prov = ''deepseek'' then Some ''deepseek-chat''
      else if prov = ''anthropic'' then Some ''claude-3-5-sonnet-20241022''
      else if prov = ''gemini'' then Some ''gemini-pro''
      else if prov = ''local'' then Some ''Qwen/Qwen2.5-32B-Instruct-AWQ''
      else None)"

text \<open>
  The message of the OpenAI-style branch: the text, and the image for provider openai
  alone, when an image path is given.
\<close>

definition openai_messages ::
  "'l collaborators \<Rightarrow> string \<Rightarrow> string \<Rightarrow> string option \<Rightarrow> exn + message list" where
  "openai_messages d prov prompt image_path =
     (let messages = [\<lparr>role = ''user'', parts = [] @ [TextPart prompt]\<rparr>]
      in if truthy image_path then
           (if prov = ''openai'' then
              (case encode_image_file d (the image_path) of
                 Inl e \<Rightarrow> Inl e
               | Inr (encoded_image, mime_type) \<Rightarrow>
                   Inr [\<lparr>role = ''user'',
                         parts = [TextPart prompt,
                                  ImageUrlPart (''data:'' @ mime_type @ '';base64,''
                                                @ encoded_image)]\<rparr>])
            else Inr messages)
         else Inr messages)"

definition openai_kwargs :: "string option \<Rightarrow> message list \<Rightarrow> chat_kwargs" where
  "openai_kwargs mdl messages =
     (let kwargs = \<lparr>kw_model = mdl, kw_messages = messages, kw_temperature = Some (7 / 10),
                     kw_response_format = None, kw_reasoning_effort = None\<rparr>
      in if mdl = Some ''o1''
         then kwargs\<lparr>kw_response_format := Some ''text'', kw_reasoning_effort := Some ''low'',
                     kw_temperature := None\<rparr>
         else kwargs)"

text \<open>
  The usage record of the OpenAI-style branch. The condition of the conditional
  expression is evaluated first, and \<open>model.lower()\<close> raises when the model is \<open>None\<close>.
\<close>

definition openai_token_usage :: "string option \<Rightarrow> chat_completion \<Rightarrow> exn + token_usage" where
  "openai_token_usage mdl response =
     (case mdl of
        None \<Rightarrow> Inl (AttributeError ''lower'')
      | Some m \<Rightarrow>
          TokenUsage (usage_prompt_tokens response) (usage_completion_tokens response)
            (usage_total_tokens response)
            (if startswith (lower m) ''o'' then usage_reasoning_tokens response else None))"

text \<open>
  The part the two tracked branches share: compute the cost, build the record, hand it
  to the tracker, return the text. The first exception ends it.
\<close>

definition track_and_return ::
  "'l collaborators \<Rightarrow> (exn + rat) \<Rightarrow> event \<Rightarrow> string \<Rightarrow> token_usage \<Rightarrow> rat \<Rightarrow> string
     \<Rightarrow> string option \<Rightarrow> 'l world \<Rightarrow> (exn + string option) \<times> 'l world" where
  "track_and_return d cost_result cost_call txt tu tt prov mdl w =
     (let w1 = emit cost_call w
      in case cost_result of
           Inl e \<Rightarrow> (Inl e, w1)
         | Inr c \<Rightarrow>
             (case APIResponse txt tu c tt prov mdl of
                Inl e \<Rightarrow> (Inl e, w1)
              | Inr api_response \<Rightarrow>
                  (let w2 = emit (TrackRequest api_response) w1;
                       (raised, l) = track_request d api_response (ledger w2);
                       w3 = w2\<lparr>ledger := l\<rparr>
                   in case raised of
                        Some e \<Rightarrow> (Inl e, w3)
                      | None \<Rightarrow> (Inr (Some txt), w3))))"

definition query_openai_style ::
  "'l collaborators \<Rightarrow> string \<Rightarrow> client \<Rightarrow> string option \<Rightarrow> string \<Rightarrow> string option \<Rightarrow> rat
     \<Rightarrow> 'l world \<Rightarrow> (exn + string option) \<times> 'l world" where
  "query_openai_style d prompt cl mdl prov image_path start_time w =
     (case openai_messages d prov prompt image_path of
        Inl e \<Rightarrow> (Inl e, w)
      | Inr messages \<Rightarrow>
          (let kwargs = openai_kwargs mdl messages;
               w1 = emit (ChatCompletionsCreate cl kwargs) w
           in case chat_completions_create d cl kwargs of
                Inl e \<Rightarrow> (Inl e, w1)
              | Inr response \<Rightarrow>
                  (let (t, w2) = time_time d w1;
                       tt = t - start_time
                   in case openai_token_usage mdl response of
                        Inl e \<Rightarrow> (Inl e, w2)
                      | Inr tu \<Rightarrow>
                          track_and_return d
                            (calculate_openai_cost d (prompt_tokens tu) (completion_tokens tu) mdl)
                            (CalculateOpenAICost (prompt_tokens tu) (completion_tokens tu) mdl)
                            (choice_content response) tu tt prov mdl w2)))"

definition anthropic_messages ::
  "'l collaborators \<Rightarrow> string \<Rightarrow> string option \<Rightarrow> exn + message list" where
  "anthropic_messages d prompt image_path =
     (let txt = [] @ [TextPart prompt]
      in if truthy image_path then
           (case encode_image_file d (the image_path) of
              Inl e \<Rightarrow> Inl e
            | Inr (encoded_image, mime_type) \<Rightarrow>
                Inr [\<lparr>role = ''user'', parts = txt @ [ImagePart mime_type encoded_image]\<rparr>])
         else Inr [\<lparr>role = ''user'', parts = txt\<rparr>])"

text \<open>The usage record of the Anthropic branch: the total is the sum of the two counts.\<close>

definition anthropic_token_usage :: "anthropic_message \<Rightarrow> exn + token_usage" where
  "anthropic_token_usage response =
     TokenUsage (usage_input_tokens response) (usage_output_tokens response)
       (usage_input_tokens response + usage_output_tokens response) None"

definition query_anthropic ::
  "'l collaborators \<Rightarrow> string \<Rightarrow> client \<Rightarrow> string option \<Rightarrow> string \<Rightarrow> string option \<Rightarrow> rat
     \<Rightarrow> 'l world \<Rightarrow> (exn + string option) \<times> 'l world" where
  "query_anthropic d prompt cl mdl prov image_path start_time w =
     (case anthropic_messages d prompt image_path of
        Inl e \<Rightarrow> (Inl e, w)
      | Inr messages \<Rightarrow>
          (let kwargs = \<lparr>mk_model = mdl, mk_max_tokens = 1000, mk_messages = messages\<rparr>;
               w1 = emit (MessagesCreate cl kwargs) w
           in case messages_create d cl kwargs of
                Inl e \<Rightarrow> (Inl e, w1)
              | Inr response \<Rightarrow>
                  (let (t, w2) = time_time d w1;
                       tt = t - start_time
                   in case anthropic_token_usage response of
                        Inl e \<Rightarrow> (Inl e, w2)
                      | Inr tu \<Rightarrow>
                          track_and_return d
                            (calculate_claude_cost d (prompt_tokens tu) (completion_tokens tu) mdl)
                            (CalculateClaudeCost (prompt_tokens tu) (completion_tokens tu) mdl)
                            (content_text response) tu tt prov mdl w2)))"

definition query_gemini ::
  "'l collaborators \<Rightarrow> string \<Rightarrow> client \<Rightarrow> string option \<Rightarrow> 'l world
     \<Rightarrow> (exn + string option) \<times> 'l world" where
  "query_gemini d prompt cl mdl w =
     (let w1 = emit (GenerateContent cl mdl prompt) w
      in case generate_content d cl mdl prompt of
           Inl e \<Rightarrow> (Inl e, w1)
         | Inr txt \<Rightarrow> (Inr (Some txt), w1))"

text \<open>The model in force: the caller's, or the provider's default when it is \<open>None\<close>.\<close>

definition resolve_model :: "'l collaborators \<Rightarrow> string option \<Rightarrow> string \<Rightarrow> string option" where
  "resolve_model d mdl0 prov = (case mdl0 of None \<Rightarrow> default_model d prov | Some m \<Rightarrow> Some m)"

text \<open>The body of the \<open>try\<close> statement; falling off its end returns \<open>None\<close>.\<close>

definition query_llm_try ::
  "'l collaborators \<Rightarrow> string \<Rightarrow> client \<Rightarrow> string option \<Rightarrow> string \<Rightarrow> string option
     \<Rightarrow> 'l world \<Rightarrow> (exn + string option) \<times> 'l world" where
  "query_llm_try d prompt cl mdl0 prov image_path w =
     (let mdl = resolve_model d mdl0 prov;
          (start_time, w0) = time_time d w
      in if prov \<in> set [''openai'', ''local'', ''deepseek'', ''azure''] then
           query_openai_style d prompt cl mdl prov image_path start_time w0
         else if prov = ''anthropic'' then
           query_anthropic d prompt cl mdl prov image_path start_time w0
         else if prov = ''gemini'' then
           query_gemini d prompt cl mdl w0
         else (Inr None, w0))"

text \<open>
  The handler \<open>except Exception\<close>: the exception is reported on standard error and the
  function returns \<open>None\<close>.
\<close>

definition except_Exception ::
  "(exn + string option) \<times> 'l world \<Rightarrow> (exn + string option) \<times> 'l world" where
  "except_Exception r =
     (case r of
        (Inl e, w) \<Rightarrow> (Inr None, emit (Stderr (''Error querying LLM: '' @ str_exn e)) w)
      | (Inr v, w) \<Rightarrow> (Inr v, w))"

text \<open>
  \<open>query_llm\<close>: the client is created outside the \<open>try\<close>, so its exception leaves the
  function; every exception of the body is caught.
\<close>

definition query_llm ::
  "'l collaborators \<Rightarrow> string \<Rightarrow> client option \<Rightarrow> string option \<Rightarrow> string \<Rightarrow> string option
     \<Rightarrow> 'l world \<Rightarrow> (exn + string option) \<times> 'l world" where
  "query_llm d prompt client_arg mdl prov image_path w =
     (case (case client_arg of
              None \<Rightarrow> create_llm_client d prov w
            | Some cl \<Rightarrow> (Inr cl, w)) of
        (Inl e, w') \<Rightarrow> (Inl e, w')
      | (Inr cl, w') \<Rightarrow> except_Exception (query_llm_try d prompt cl mdl prov image_path w'))"

subsection \<open>main\<close>

record args =
  arg_prompt :: string
  arg_provider :: string
  arg_model :: "string option"
  arg_image :: "string option"

definition main_model :: "'l collaborators \<Rightarrow> args \<Rightarrow> string option" where
  "main_model d a =
     (if \<not> truthy (arg_model a) then
        (if arg_provider a = ''openai'' then Some ''gpt-4o''
         else if arg_provider a = ''deepseek'' then Some ''deepseek-chat''
         else if arg_provider a = ''anthropic'' then Some ''claude-3-5-sonnet-20241022''
         else if arg_provider a = ''gemini'' then Some ''gemini-2.0-flash-exp''
         else if arg_provider a = ''azure'' then
           Some (getenv_default d ''AZURE_OPENAI_MODEL_DEPLOYMENT'' ''gpt-4o-ms'')
         else arg_model a)
      else arg_model a)"

text \<open>
  \<open>main\<close> after \<open>parse_args\<close>: an exception of \<open>create_llm_client\<close> leaves it; otherwise it
  prints one line on standard output and returns.
\<close>

definition main :: "'l collaborators \<Rightarrow> args \<Rightarrow> 'l world \<Rightarrow> (exn + unit) \<times> 'l world" where
  "main d a w =
     (let mdl = main_model d a
      in case create_llm_client d (arg_provider a) w of
           (Inl e, w1) \<Rightarrow> (Inl e, w1)
         | (Inr cl, w1) \<Rightarrow>
             (case query_llm d (arg_prompt a) (Some cl) mdl (arg_provider a) (arg_image a) w1 of
                (Inl e, w2) \<Rightarrow> (Inl e, w2)
              | (Inr response, w2) \<Rightarrow>
                  (if truthy response
                   then (Inr (), emit (Stdout (the response)) w2)
                   else (Inr (), emit (Stdout ''Failed to get response from LLM'') w2))))"

subsection \<open>Collaborators and worlds to run the model on\<close>

text \<open>
  An environment without variables, a clock that advances by one at each reading,
  providers that answer, a price of one thousandth per prompt token and two per
  completion token, and a ledger that is the list of the records tracked.
\<close>

definition pong :: chat_completion where
  "pong = \<lparr>usage_prompt_tokens = 10, usage_completion_tokens = 100, usage_total_tokens = 115,
            usage_reasoning_tokens = Some 40, choice_content = ''pong''\<rparr>"

definition claude_pong :: anthropic_message where
  "claude_pong = \<lparr>usage_input_tokens = 7, usage_output_tokens = 5, content_text = ''pong''\<rparr>"

definition answering :: "api_response list collaborators" where
  "answering =
     \<lparr>getenv = (\<lambda>k. None),
      clock = (\<lambda>n. of_nat n),
      guess_type = (\<lambda>p. None),
      read_file = (\<lambda>p. Inr ''img''),
      b64encode = (\<lambda>b. ''aW1n''),
      chat_completions_create = (\<lambda>cl kw. Inr pong),
      messages_create = (\<lambda>cl kw. Inr claude_pong),
      generate_content = (\<lambda>cl m p. Inr ''pong''),
      calculate_openai_cost = (\<lambda>p c m. Inr (of_int (p + 2 * c) / 1000)),
      calculate_claude_cost = (\<lambda>p c m. Inr (of_int (p + 2 * c) / 1000)),
      track_request = (\<lambda>a l. (None, l @ [a]))\<rparr>"

text \<open>The same, with a cost calculator that knows no model.\<close>

definition unpriced :: "api_response list collaborators" where
  "unpriced =
     answering\<lparr>calculate_openai_cost :=
                 (\<lambda>p c m. Inl (ValueError ''Unsupported OpenAI model for cost calculation''))\<rparr>"

text \<open>The same, with a tracker that stores the record and then raises.\<close>

definition unwritable :: "api_response list collaborators" where
  "unwritable =
     answering\<lparr>track_request := (\<lambda>a l. (Some (OtherException ''OSError'' ''read-only''), l @ [a]))\<rparr>"

text \<open>The same, with providers that are down.\<close>

definition unreachable :: "api_response list collaborators" where
  "unreachable =
     answering\<lparr>chat_completions_create := (\<lambda>cl kw. Inl (OtherException ''APIError'' ''down'')),
               messages_create := (\<lambda>cl kw. Inl (OtherException ''APIError'' ''down'')),
               generate_content := (\<lambda>cl m p. Inl (OtherException ''APIError'' ''down''))\<rparr>"

text \<open>The same as \<open>answering\<close>, with a provider that answers the empty text.\<close>

definition taciturn :: "api_response list collaborators" where
  "taciturn =
     answering\<lparr>chat_completions_create := (\<lambda>cl kw.
        Inr \<lparr>usage_prompt_tokens = 10, usage_completion_tokens = 0, usage_total_tokens = 10,
             usage_reasoning_tokens = None, choice_content = []\<rparr>)\<rparr>"

definition w_init :: "api_response list world" where
  "w_init = \<lparr>trace = [], ledger = [], ticks = 0\<rparr>"

definition a_client :: client where
  "a_client = OpenAI ''sk-test'' None"

text \<open>The client of provider local, and a command line that selects it.\<close>

definition local_client :: client where
  "local_client = OpenAI ''not-needed'' (Some ''http://192.168.180.137:8006/v1'')"

definition ping_local :: args where
  "ping_local = \<lparr>arg_prompt = ''ping'', arg_provider = ''local'', arg_model = None,
                  arg_image = None\<rparr>"

text \<open>
  The records \<open>answering\<close> tracks for the prompt ping: on provider openai with model o1,
  and on provider anthropic with the default model.
\<close>

definition o1_record :: api_response where
  "o1_record =
     \<lparr>content = ''pong'',
      token_usage = \<lparr>prompt_tokens = 10, completion_tokens = 100, total_tokens = 115,
                      reasoning_tokens = Some 40\<rparr>,
      cost = 21 / 100, thinking_time = 1, provider = ''openai'', model = Some ''o1''\<rparr>"

definition claude_record :: api_response where
  "claude_record =
     \<lparr>content = ''pong'',
      token_usage = \<lparr>prompt_tokens = 7, completion_tokens = 5, total_tokens = 12,
                      reasoning_tokens = None\<rparr>,
      cost = 17 / 1000, thinking_time = 1, provider = ''anthropic'',
      model = Some ''claude-3-5-sonnet-20241022''\<rparr>"

section \<open>Properties\<close>

subsection \<open>Running \<open>query_llm\<close> with a client\<close>

lemma query_llm_Some:
  "query_llm d prompt (Some cl) mdl0 prov img w =
     except_Exception (query_llm_try d prompt cl mdl0 prov img w)"
  by (simp add: query_llm_def)

lemma query_llm_None:
  "create_llm_client d prov w = (Inr cl, w1) \<Longrightarrow>
   query_llm d prompt None mdl0 prov img w = query_llm d prompt (Some cl) mdl0 prov img w1"
  by (simp add: query_llm_def)

lemma resolve_model_Some:
  "prov \<in> set [''openai'', ''local'', ''deepseek'', ''azure'', ''anthropic'', ''gemini'']
   \<Longrightarrow> \<exists>m. resolve_model d mdl0 prov = Some m"
  by (cases mdl0) (auto simp: resolve_model_def default_model_def)

text \<open>The definitions a run on concrete collaborators unfolds.\<close>

lemmas run_defs =
  query_llm_def query_llm_try_def except_Exception_def resolve_model_def default_model_def
  time_time_def emit_def query_openai_style_def openai_messages_def openai_kwargs_def
  openai_token_usage_def TokenUsage_def APIResponse_def track_and_return_def
  query_anthropic_def anthropic_messages_def anthropic_token_usage_def query_gemini_def
  encode_image_file_def startswith_def lower_def lower_char_def Let_def getenv_default_def
  events_since_def w_init_def a_client_def pong_def claude_pong_def

subsection \<open>The usage records\<close>

lemma TokenUsage_Inr:
  assumes "TokenUsage p c t r = Inr tu"
  shows "tu = \<lparr>prompt_tokens = p, completion_tokens = c, total_tokens = t, reasoning_tokens = r\<rparr>"
proof (cases "p < 0 \<or> c < 0 \<or> t < 0 \<or> (case r of None \<Rightarrow> False | Some x \<Rightarrow> x < 0)")
  case True
  with assms show ?thesis unfolding TokenUsage_def by simp
next
  case False
  with assms show ?thesis unfolding TokenUsage_def by simp
qed

lemma openai_token_usage_fields:
  assumes "openai_token_usage mdl r = Inr tu"
  shows "\<exists>m. mdl = Some m
           \<and> prompt_tokens tu = usage_prompt_tokens r
           \<and> completion_tokens tu = usage_completion_tokens r
           \<and> total_tokens tu = usage_total_tokens r
           \<and> reasoning_tokens tu
               = (if startswith (lower m) ''o'' then usage_reasoning_tokens r else None)"
proof (cases mdl)
  case None
  with assms show ?thesis by (simp add: openai_token_usage_def)
next
  case (Some m)
  with assms have "TokenUsage (usage_prompt_tokens r) (usage_completion_tokens r)
            (usage_total_tokens r)
            (if startswith (lower m) ''o'' then usage_reasoning_tokens r else None) = Inr tu"
    by (simp add: openai_token_usage_def)
  from TokenUsage_Inr [OF this] Some show ?thesis by simp
qed

lemma anthropic_token_usage_fields:
  assumes "anthropic_token_usage r = Inr tu"
  shows "prompt_tokens tu = usage_input_tokens r
           \<and> completion_tokens tu = usage_output_tokens r
           \<and> total_tokens tu = usage_input_tokens r + usage_output_tokens r
           \<and> reasoning_tokens tu = None"
  using TokenUsage_Inr [OF assms [unfolded anthropic_token_usage_def]] by simp

subsection \<open>What a run hands to the tracker\<close>

text \<open>
  After its cost event, the shared tail adds at most one event, the record it hands to
  \<open>track_request\<close>, built from the cost the calculator returned.
\<close>

lemma track_and_return_trace:
  assumes "track_and_return d cr ev txt tu tt prov mdl w = (res, w')"
  shows "\<exists>evs. trace w' = trace w @ ev # evs \<and> ticks w' = ticks w
           \<and> (\<forall>a. TrackRequest a \<in> set evs \<longrightarrow>
                 cr = Inr (cost a) \<and> content a = txt \<and> token_usage a = tu
                 \<and> thinking_time a = tt \<and> provider a = prov \<and> model a = mdl)"
  using assms
  by (auto simp: track_and_return_def emit_def APIResponse_def Let_def
           split: sum.splits if_splits prod.splits option.splits)

lemma query_openai_style_trace:
  assumes "query_openai_style d prompt cl mdl prov img st w = (res, w')"
  shows "\<exists>evs. trace w' = trace w @ evs
           \<and> (\<forall>a. TrackRequest a \<in> set evs \<longrightarrow>
                 (\<exists>msgs r. openai_messages d prov prompt img = Inr msgs
                    \<and> chat_completions_create d cl (openai_kwargs mdl msgs) = Inr r
                    \<and> openai_token_usage mdl r = Inr (token_usage a)
                    \<and> calculate_openai_cost d (prompt_tokens (token_usage a))
                          (completion_tokens (token_usage a)) mdl = Inr (cost a)
                    \<and> content a = choice_content r \<and> provider a = prov \<and> model a = mdl))"
proof (cases "openai_messages d prov prompt img")
  case (Inl e)
  with assms show ?thesis by (simp add: query_openai_style_def)
next
  case msgs: (Inr msgs)
  show ?thesis
  proof (cases "chat_completions_create d cl (openai_kwargs mdl msgs)")
    case (Inl e)
    with assms msgs show ?thesis
      by (auto simp: query_openai_style_def emit_def Let_def)
  next
    case r: (Inr r)
    show ?thesis
    proof (cases "openai_token_usage mdl r")
      case (Inl e)
      with assms msgs r show ?thesis
        by (auto simp: query_openai_style_def emit_def time_time_def Let_def)
    next
      case tu: (Inr tu)
      let ?w2 = "w\<lparr>trace := trace w @ [ChatCompletionsCreate cl (openai_kwargs mdl msgs)],
                     ticks := Suc (ticks w)\<rparr>"
      from assms msgs r tu
      have "track_and_return d
              (calculate_openai_cost d (prompt_tokens tu) (completion_tokens tu) mdl)
              (CalculateOpenAICost (prompt_tokens tu) (completion_tokens tu) mdl)
              (choice_content r) tu (clock d (ticks w) - st) prov mdl ?w2 = (res, w')"
        by (simp add: query_openai_style_def emit_def time_time_def Let_def)
      from track_and_return_trace [OF this] msgs r tu show ?thesis
        by auto
    qed
  qed
qed

lemma query_anthropic_trace:
  assumes "query_anthropic d prompt cl mdl prov img st w = (res, w')"
  shows "\<exists>evs. trace w' = trace w @ evs
           \<and> (\<forall>a. TrackRequest a \<in> set evs \<longrightarrow>
                 (\<exists>msgs r. anthropic_messages d prompt img = Inr msgs
                    \<and> messages_create d cl
                         \<lparr>mk_model = mdl, mk_max_tokens = 1000, mk_messages = msgs\<rparr> = Inr r
                    \<and> anthropic_token_usage r = Inr (token_usage a)
                    \<and> calculate_claude_cost d (prompt_tokens (token_usage a))
                          (completion_tokens (token_usage a)) mdl = Inr (cost a)
                    \<and> content a = content_text r \<and> provider a = prov \<and> model a = mdl))"
proof (cases "anthropic_messages d prompt img")
  case (Inl e)
  with assms show ?thesis by (simp add: query_anthropic_def)
next
  case msgs: (Inr msgs)
  let ?kw = "\<lparr>mk_model = mdl, mk_max_tokens = 1000, mk_messages = msgs\<rparr>"
  show ?thesis
  proof (cases "messages_create d cl ?kw")
    case (Inl e)
    with assms msgs show ?thesis
      by (auto simp: query_anthropic_def emit_def Let_def)
  next
    case r: (Inr r)
    show ?thesis
    proof (cases "anthropic_token_usage r")
      case (Inl e)
      with assms msgs r show ?thesis
        by (auto simp: query_anthropic_def emit_def time_time_def Let_def)
    next
      case tu: (Inr tu)
      let ?w2 = "w\<lparr>trace := trace w @ [MessagesCreate cl ?kw], ticks := Suc (ticks w)\<rparr>"
      from assms msgs r tu
      have "track_and_return d
              (calculate_claude_cost d (prompt_tokens tu) (completion_tokens tu) mdl)
              (CalculateClaudeCost (prompt_tokens tu) (completion_tokens tu) mdl)
              (content_text r) tu (clock d (ticks w) - st) prov mdl ?w2 = (res, w')"
        by (simp add: query_anthropic_def emit_def time_time_def Let_def)
      from track_and_return_trace [OF this] msgs r tu show ?thesis
        by auto
    qed
  qed
qed

lemma query_gemini_trace:
  assumes "query_gemini d prompt cl mdl w = (res, w')"
  shows "\<exists>evs. trace w' = trace w @ evs \<and> (\<forall>a. TrackRequest a \<notin> set evs)"
  using assms by (auto simp: query_gemini_def emit_def Let_def split: sum.splits)

lemma except_Exception_trace:
  assumes "except_Exception (r, w1) = (res, w')"
  shows "\<exists>evs. trace w' = trace w1 @ evs \<and> (\<forall>a. TrackRequest a \<notin> set evs)"
  using assms by (auto simp: except_Exception_def emit_def split: sum.splits)

lemma tracked_by_openai_style:
  assumes prov: "prov \<in> set [''openai'', ''local'', ''deepseek'', ''azure'']"
    and tracked: "TrackRequest a
                    \<in> set (events_since w (snd (query_llm d prompt (Some cl) mdl0 prov img w)))"
  shows "\<exists>msgs r. openai_messages d prov prompt img = Inr msgs
           \<and> chat_completions_create d cl (openai_kwargs (resolve_model d mdl0 prov) msgs) = Inr r
           \<and> openai_token_usage (resolve_model d mdl0 prov) r = Inr (token_usage a)
           \<and> calculate_openai_cost d (prompt_tokens (token_usage a))
                 (completion_tokens (token_usage a)) (resolve_model d mdl0 prov) = Inr (cost a)
           \<and> content a = choice_content r \<and> provider a = prov
           \<and> model a = resolve_model d mdl0 prov"
proof -
  let ?w0 = "w\<lparr>ticks := Suc (ticks w)\<rparr>"
  obtain res w' where run: "query_llm d prompt (Some cl) mdl0 prov img w = (res, w')"
    by force
  obtain r1 w1 where body:
    "query_openai_style d prompt cl (resolve_model d mdl0 prov) prov img (clock d (ticks w)) ?w0
       = (r1, w1)"
    by force
  with prov run have exc: "except_Exception (r1, w1) = (res, w')"
    by (simp add: query_llm_Some query_llm_try_def time_time_def Let_def)
  from query_openai_style_trace [OF body] obtain evs where
    evs: "trace w1 = trace w @ evs"
    and P: "\<forall>a. TrackRequest a \<in> set evs \<longrightarrow>
                 (\<exists>msgs r. openai_messages d prov prompt img = Inr msgs
                    \<and> chat_completions_create d cl (openai_kwargs (resolve_model d mdl0 prov) msgs) = Inr r
                    \<and> openai_token_usage (resolve_model d mdl0 prov) r = Inr (token_usage a)
                    \<and> calculate_openai_cost d (prompt_tokens (token_usage a))
                          (completion_tokens (token_usage a)) (resolve_model d mdl0 prov) = Inr (cost a)
                    \<and> content a = choice_content r \<and> provider a = prov
                    \<and> model a = resolve_model d mdl0 prov)"
    by auto
  from except_Exception_trace [OF exc] obtain evs' where
    evs': "trace w' = trace w1 @ evs'" and Q: "\<forall>a. TrackRequest a \<notin> set evs'"
    by auto
  from tracked run evs evs' Q have "TrackRequest a \<in> set evs"
    by (auto simp: events_since_def)
  with P show ?thesis by blast
qed

lemma tracked_by_anthropic:
  assumes tracked: "TrackRequest a
      \<in> set (events_since w (snd (query_llm d prompt (Some cl) mdl0 ''anthropic'' img w)))"
  shows "\<exists>msgs r. anthropic_messages d prompt img = Inr msgs
           \<and> messages_create d cl
                \<lparr>mk_model = resolve_model d mdl0 ''anthropic'', mk_max_tokens = 1000,
                  mk_messages = msgs\<rparr> = Inr r
           \<and> anthropic_token_usage r = Inr (token_usage a)
           \<and> calculate_claude_cost d (prompt_tokens (token_usage a))
                 (completion_tokens (token_usage a)) (resolve_model d mdl0 ''anthropic'') = Inr (cost a)
           \<and> content a = content_text r \<and> provider a = ''anthropic''
           \<and> model a = resolve_model d mdl0 ''anthropic''"
proof -
  let ?w0 = "w\<lparr>ticks := Suc (ticks w)\<rparr>"
  let ?m = "resolve_model d mdl0 ''anthropic''"
  obtain res w' where run: "query_llm d prompt (Some cl) mdl0 ''anthropic'' img w = (res, w')"
    by force
  obtain r1 w1 where body:
    "query_anthropic d prompt cl ?m ''anthropic'' img (clock d (ticks w)) ?w0 = (r1, w1)"
    by force
  with run have exc: "except_Exception (r1, w1) = (res, w')"
    by (simp add: query_llm_Some query_llm_try_def time_time_def Let_def)
  from query_anthropic_trace [OF body] obtain evs where
    evs: "trace w1 = trace w @ evs"
    and P: "\<forall>a. TrackRequest a \<in> set evs \<longrightarrow>
                 (\<exists>msgs r. anthropic_messages d prompt img = Inr msgs
                    \<and> messages_create d cl
                         \<lparr>mk_model = ?m, mk_max_tokens = 1000, mk_messages = msgs\<rparr> = Inr r
                    \<and> anthropic_token_usage r = Inr (token_usage a)
                    \<and> calculate_claude_cost d (prompt_tokens (token_usage a))
                          (completion_tokens (token_usage a)) ?m = Inr (cost a)
                    \<and> content a = content_text r \<and> provider a = ''anthropic'' \<and> model a = ?m)"
    by auto
  from except_Exception_trace [OF exc] obtain evs' where
    evs': "trace w' = trace w1 @ evs'" and Q: "\<forall>a. TrackRequest a \<notin> set evs'"
    by auto
  from tracked run evs evs' Q have "TrackRequest a \<in> set evs"
    by (auto simp: events_since_def)
  with P show ?thesis by blast
qed

lemma untracked_elsewhere:
  assumes prov: "prov \<notin> set [''openai'', ''local'', ''deepseek'', ''azure'', ''anthropic'']"
  shows "TrackRequest a
           \<notin> set (events_since w (snd (query_llm d prompt (Some cl) mdl0 prov img w)))"
proof (cases "prov = ''gemini''")
  case True
  let ?w0 = "w\<lparr>ticks := Suc (ticks w)\<rparr>"
  obtain res w' where run: "query_llm d prompt (Some cl) mdl0 prov img w = (res, w')"
    by force
  obtain r1 w1 where body:
    "query_gemini d prompt cl (resolve_model d mdl0 prov) ?w0 = (r1, w1)"
    by force
  with True run have exc: "except_Exception (r1, w1) = (res, w')"
    by (simp add: query_llm_Some query_llm_try_def time_time_def Let_def)
  from query_gemini_trace [OF body] obtain evs where
    evs: "trace w1 = trace w @ evs" and P: "\<forall>a. TrackRequest a \<notin> set evs"
    by auto
  from except_Exception_trace [OF exc] obtain evs' where
    evs': "trace w' = trace w1 @ evs'" and Q: "\<forall>a. TrackRequest a \<notin> set evs'"
    by auto
  from run evs evs' P Q show ?thesis by (auto simp: events_since_def)
next
  case False
  with prov show ?thesis
    by (auto simp: query_llm_Some query_llm_try_def time_time_def Let_def except_Exception_def
                   events_since_def)
qed

subsection \<open>Runs on the collaborators above\<close>

lemma run_o1:
  "query_llm answering ''ping'' (Some a_client) (Some ''o1'') ''openai'' None w_init
     = (Inr (Some ''pong''),
        \<lparr>trace =
           [ChatCompletionsCreate a_client
              \<lparr>kw_model = Some ''o1'',
               kw_messages = [\<lparr>role = ''user'', parts = [TextPart ''ping'']\<rparr>],
               kw_temperature = None, kw_response_format = Some ''text'',
               kw_reasoning_effort = Some ''low''\<rparr>,
            CalculateOpenAICost 10 100 (Some ''o1''),
            TrackRequest o1_record],
         ledger = [o1_record], ticks = 2\<rparr>)"
  by (simp add: run_defs answering_def o1_record_def)

lemma run_claude:
  "query_llm answering ''ping'' (Some a_client) None ''anthropic'' None w_init
     = (Inr (Some ''pong''),
        \<lparr>trace =
           [MessagesCreate a_client
              \<lparr>mk_model = Some ''claude-3-5-sonnet-20241022'', mk_max_tokens = 1000,
               mk_messages = [\<lparr>role = ''user'', parts = [TextPart ''ping'']\<rparr>]\<rparr>,
            CalculateClaudeCost 7 5 (Some ''claude-3-5-sonnet-20241022''),
            TrackRequest claude_record],
         ledger = [claude_record], ticks = 2\<rparr>)"
  by (simp add: run_defs answering_def claude_record_def)

lemma tracked_o1:
  "TrackRequest o1_record
     \<in> set (events_since w_init
              (snd (query_llm answering ''ping'' (Some a_client) (Some ''o1'') ''openai'' None
                      w_init)))"
  by (simp add: run_o1 events_since_def) (simp add: w_init_def)

lemma tracked_claude:
  "TrackRequest claude_record
     \<in> set (events_since w_init
              (snd (query_llm answering ''ping'' (Some a_client) None ''anthropic'' None w_init)))"
  by (simp add: run_claude events_since_def) (simp add: w_init_def)

subsection \<open>Reasoning tokens\<close>

lemma usage_o1:
  "openai_token_usage (Some ''o1'') pong
     = Inr \<lparr>prompt_tokens = 10, completion_tokens = 100, total_tokens = 115,
            reasoning_tokens = Some 40\<rparr>"
  by (simp add: openai_token_usage_def TokenUsage_def pong_def startswith_def lower_def
                lower_char_def Let_def)

lemma usage_gpt_4o:
  "openai_token_usage (Some ''gpt-4o'') pong
     = Inr \<lparr>prompt_tokens = 10, completion_tokens = 100, total_tokens = 115,
            reasoning_tokens = None\<rparr>"
  by (simp add: openai_token_usage_def TokenUsage_def pong_def startswith_def lower_def
                lower_char_def Let_def)

lemma usage_claude:
  "anthropic_token_usage claude_pong
     = Inr \<lparr>prompt_tokens = 7, completion_tokens = 5, total_tokens = 12, reasoning_tokens = None\<rparr>"
  by (simp add: anthropic_token_usage_def TokenUsage_def claude_pong_def)

text \<open>
  C3. For the OpenAI-style providers (openai, azure, deepseek, local) the usage record
  \<open>query_llm\<close> builds carries the reasoning tokens the provider reports if and only if
  the lower-cased model name starts with the letter o, and \<open>None\<close> for every other model.
  The first part is about the record as built from a model \<open>m\<close> and a response \<open>r\<close>; the
  second is about every record a run hands to the tracker, whose model is never \<open>None\<close>
  and whose response is the one the provider gave to this run's request.
\<close>

theorem openai_style_reasoning_tokens:
  "(openai_token_usage (Some m) r = Inr tu \<longrightarrow>
      reasoning_tokens tu
        = (if startswith (lower m) ''o'' then usage_reasoning_tokens r else None))
   \<and> (prov \<in> set [''openai'', ''local'', ''deepseek'', ''azure'']
        \<and> TrackRequest a
             \<in> set (events_since w (snd (query_llm d prompt (Some cl) mdl0 prov img w))) \<longrightarrow>
      (\<exists>m' msgs r'. resolve_model d mdl0 prov = Some m'
         \<and> openai_messages d prov prompt img = Inr msgs
         \<and> chat_completions_create d cl (openai_kwargs (Some m') msgs) = Inr r'
         \<and> reasoning_tokens (token_usage a)
             = (if startswith (lower m') ''o'' then usage_reasoning_tokens r' else None)))"
proof (intro conjI impI)
  assume "openai_token_usage (Some m) r = Inr tu"
  from openai_token_usage_fields [OF this]
  show "reasoning_tokens tu
          = (if startswith (lower m) ''o'' then usage_reasoning_tokens r else None)"
    by simp
next
  assume h: "prov \<in> set [''openai'', ''local'', ''deepseek'', ''azure'']
        \<and> TrackRequest a
             \<in> set (events_since w (snd (query_llm d prompt (Some cl) mdl0 prov img w)))"
  from h have p1: "prov \<in> set [''openai'', ''local'', ''deepseek'', ''azure'']"
    by (rule conjunct1)
  from h have p2: "TrackRequest a
             \<in> set (events_since w (snd (query_llm d prompt (Some cl) mdl0 prov img w)))"
    by (rule conjunct2)
  from tracked_by_openai_style [OF p1 p2]
  obtain msgs r' where
    msgs: "openai_messages d prov prompt img = Inr msgs"
    and r': "chat_completions_create d cl (openai_kwargs (resolve_model d mdl0 prov) msgs) = Inr r'"
    and tu: "openai_token_usage (resolve_model d mdl0 prov) r' = Inr (token_usage a)"
    by blast
  from openai_token_usage_fields [OF tu] obtain m' where
    m': "resolve_model d mdl0 prov = Some m'"
    and rt: "reasoning_tokens (token_usage a)
       = (if startswith (lower m') ''o'' then usage_reasoning_tokens r' else None)"
    by blast
  from r' m' have "chat_completions_create d cl (openai_kwargs (Some m') msgs) = Inr r'"
    by simp
  with m' msgs rt show "\<exists>m' msgs r'. resolve_model d mdl0 prov = Some m'
         \<and> openai_messages d prov prompt img = Inr msgs
         \<and> chat_completions_create d cl (openai_kwargs (Some m') msgs) = Inr r'
         \<and> reasoning_tokens (token_usage a)
             = (if startswith (lower m') ''o'' then usage_reasoning_tokens r' else None)"
    by blast
qed

theorem openai_style_reasoning_tokens_witness:
  "openai_token_usage (Some ''o1'') pong
     = Inr \<lparr>prompt_tokens = 10, completion_tokens = 100, total_tokens = 115,
            reasoning_tokens = Some 40\<rparr>
   \<and> startswith (lower ''o1'') ''o''
   \<and> usage_reasoning_tokens pong = Some 40
   \<and> ''openai'' \<in> set [''openai'', ''local'', ''deepseek'', ''azure'']
   \<and> TrackRequest o1_record
        \<in> set (events_since w_init
                 (snd (query_llm answering ''ping'' (Some a_client) (Some ''o1'') ''openai'' None
                         w_init)))
   \<and> reasoning_tokens (token_usage o1_record) = Some 40"
proof -
  have h: "''openai'' \<in> set [''openai'', ''local'', ''deepseek'', ''azure'']
           \<and> TrackRequest o1_record
                \<in> set (events_since w_init
                     (snd (query_llm answering ''ping'' (Some a_client) (Some ''o1'') ''openai''
                             None w_init)))"
    using tracked_o1 by simp
  have o: "startswith (lower ''o1'') ''o''"
    by (simp add: startswith_def lower_def lower_char_def Let_def)
  have p: "usage_reasoning_tokens pong = Some 40"
    by (simp add: pong_def)
  have c: "chat_completions_create answering cl kw = Inr pong" for cl kw
    by (simp add: answering_def)
  have m: "resolve_model answering (Some ''o1'') ''openai'' = Some ''o1''"
    by (simp add: resolve_model_def)
  note inst = openai_style_reasoning_tokens
      [of "''o1''" pong "\<lparr>prompt_tokens = 10, completion_tokens = 100, total_tokens = 115,
            reasoning_tokens = Some 40\<rparr>" "''openai''" o1_record w_init answering "''ping''"
          a_client "Some ''o1''" None]
  from inst h have "\<exists>m' msgs r'. resolve_model answering (Some ''o1'') ''openai'' = Some m'
         \<and> openai_messages answering ''openai'' ''ping'' None = Inr msgs
         \<and> chat_completions_create answering a_client (openai_kwargs (Some m') msgs) = Inr r'
         \<and> reasoning_tokens (token_usage o1_record)
             = (if startswith (lower m') ''o'' then usage_reasoning_tokens r' else None)"
    by blast
  with m c o p have run: "reasoning_tokens (token_usage o1_record) = Some 40"
    by auto
  from inst usage_o1 have "reasoning_tokens
      \<lparr>prompt_tokens = 10, completion_tokens = 100, total_tokens = 115,
        reasoning_tokens = Some 40\<rparr>
      = (if startswith (lower ''o1'') ''o'' then usage_reasoning_tokens pong else None)"
    by blast
  with run usage_o1 o p h show ?thesis by simp
qed

subsection \<open>The arguments of the cost calculation\<close>

text \<open>
  C4. The cost of every record \<open>query_llm\<close> hands to the tracker is what the calculator
  returns for the record's prompt tokens, completion tokens and model, and for nothing
  else: the reasoning tokens are not among its arguments. On the OpenAI-style providers
  the completion tokens it is given are the whole count the provider reports, so that a
  record with 100 completion tokens, 40 of them reasoning tokens, is billed for 100
  completion tokens: in the run below, at 1 per prompt token and 2 per completion token
  for a thousand, 10 prompt tokens and 100 completion tokens cost (10 + 2 * 100) / 1000.
\<close>

theorem query_llm_cost_arguments:
  assumes tracked: "TrackRequest a
      \<in> set (events_since w (snd (query_llm d prompt (Some cl) mdl0 prov img w)))"
  shows "if prov = ''anthropic''
         then calculate_claude_cost d (prompt_tokens (token_usage a))
                (completion_tokens (token_usage a)) (model a) = Inr (cost a)
         else calculate_openai_cost d (prompt_tokens (token_usage a))
                (completion_tokens (token_usage a)) (model a) = Inr (cost a)
              \<and> (\<exists>msgs r. chat_completions_create d cl (openai_kwargs (model a) msgs) = Inr r
                    \<and> prompt_tokens (token_usage a) = usage_prompt_tokens r
                    \<and> completion_tokens (token_usage a) = usage_completion_tokens r)"
proof (cases "prov = ''anthropic''")
  case True
  from tracked_by_anthropic [OF tracked [unfolded True]] True show ?thesis
    by auto
next
  case False
  have prov: "prov \<in> set [''openai'', ''local'', ''deepseek'', ''azure'']"
  proof (rule ccontr)
    assume "prov \<notin> set [''openai'', ''local'', ''deepseek'', ''azure'']"
    with False have "prov \<notin> set [''openai'', ''local'', ''deepseek'', ''azure'', ''anthropic'']"
      by simp
    from untracked_elsewhere [OF this] tracked show False by blast
  qed
  from tracked_by_openai_style [OF prov tracked] obtain msgs r where
    r: "chat_completions_create d cl (openai_kwargs (resolve_model d mdl0 prov) msgs) = Inr r"
    and tu: "openai_token_usage (resolve_model d mdl0 prov) r = Inr (token_usage a)"
    and c: "calculate_openai_cost d (prompt_tokens (token_usage a))
                 (completion_tokens (token_usage a)) (resolve_model d mdl0 prov) = Inr (cost a)"
    and m: "model a = resolve_model d mdl0 prov"
    by blast
  from openai_token_usage_fields [OF tu]
  have "prompt_tokens (token_usage a) = usage_prompt_tokens r"
    and "completion_tokens (token_usage a) = usage_completion_tokens r"
    by auto
  with False r c m show ?thesis by auto
qed

theorem query_llm_cost_arguments_witness:
  "TrackRequest o1_record
     \<in> set (events_since w_init
              (snd (query_llm answering ''ping'' (Some a_client) (Some ''o1'') ''openai'' None
                      w_init)))
   \<and> completion_tokens (token_usage o1_record) = 100
   \<and> reasoning_tokens (token_usage o1_record) = Some 40
   \<and> calculate_openai_cost answering 10 100 (Some ''o1'') = Inr (cost o1_record)
   \<and> cost o1_record = (10 + 2 * 100) / 1000"
proof -
  have f: "prompt_tokens (token_usage o1_record) = 10"
    "completion_tokens (token_usage o1_record) = 100"
    "reasoning_tokens (token_usage o1_record) = Some 40"
    "model o1_record = Some ''o1''"
    "cost o1_record = (10 + 2 * 100) / 1000"
    by (simp_all add: o1_record_def)
  from query_llm_cost_arguments [OF tracked_o1]
  have "calculate_openai_cost answering (prompt_tokens (token_usage o1_record))
          (completion_tokens (token_usage o1_record)) (model o1_record) = Inr (cost o1_record)"
    by simp
  with f(1,2,4) have "calculate_openai_cost answering 10 100 (Some ''o1'') = Inr (cost o1_record)"
    by simp
  with tracked_o1 f show ?thesis by simp
qed

subsection \<open>The total of a usage record\<close>

text \<open>
  C5. A usage record built in the Anthropic branch has a total that is the sum of its
  prompt and completion tokens; one built in the OpenAI-style branch has the total the
  provider reports, whatever the sum is (115 for 10 and 100 in the run below). The same
  holds of every record a run hands to the tracker.
\<close>

theorem token_usage_total:
  "(anthropic_token_usage r = Inr tu \<longrightarrow>
      total_tokens tu = prompt_tokens tu + completion_tokens tu)
   \<and> (openai_token_usage mdl r' = Inr tu' \<longrightarrow> total_tokens tu' = usage_total_tokens r')
   \<and> (TrackRequest a
         \<in> set (events_since w (snd (query_llm d prompt (Some cl) mdl0 prov img w))) \<longrightarrow>
       (if prov = ''anthropic''
        then total_tokens (token_usage a)
               = prompt_tokens (token_usage a) + completion_tokens (token_usage a)
        else \<exists>msgs r. chat_completions_create d cl (openai_kwargs (model a) msgs) = Inr r
               \<and> total_tokens (token_usage a) = usage_total_tokens r))"
proof (intro conjI impI)
  assume "anthropic_token_usage r = Inr tu"
  from anthropic_token_usage_fields [OF this]
  show "total_tokens tu = prompt_tokens tu + completion_tokens tu" by simp
next
  assume "openai_token_usage mdl r' = Inr tu'"
  from openai_token_usage_fields [OF this]
  show "total_tokens tu' = usage_total_tokens r'" by blast
next
  assume tracked: "TrackRequest a
         \<in> set (events_since w (snd (query_llm d prompt (Some cl) mdl0 prov img w)))"
  show "if prov = ''anthropic''
        then total_tokens (token_usage a)
               = prompt_tokens (token_usage a) + completion_tokens (token_usage a)
        else \<exists>msgs r. chat_completions_create d cl (openai_kwargs (model a) msgs) = Inr r
               \<and> total_tokens (token_usage a) = usage_total_tokens r"
  proof (cases "prov = ''anthropic''")
    case True
    from tracked_by_anthropic [OF tracked [unfolded True]] obtain r where
      "anthropic_token_usage r = Inr (token_usage a)" by blast
    from anthropic_token_usage_fields [OF this] True show ?thesis by simp
  next
    case False
    have prov: "prov \<in> set [''openai'', ''local'', ''deepseek'', ''azure'']"
    proof (rule ccontr)
      assume "prov \<notin> set [''openai'', ''local'', ''deepseek'', ''azure'']"
      with False have "prov \<notin> set [''openai'', ''local'', ''deepseek'', ''azure'', ''anthropic'']"
        by simp
      from untracked_elsewhere [OF this] tracked show False by blast
    qed
    from tracked_by_openai_style [OF prov tracked] obtain msgs r where
      r: "chat_completions_create d cl (openai_kwargs (resolve_model d mdl0 prov) msgs) = Inr r"
      and tu: "openai_token_usage (resolve_model d mdl0 prov) r = Inr (token_usage a)"
      and m: "model a = resolve_model d mdl0 prov"
      by blast
    from openai_token_usage_fields [OF tu]
    have "total_tokens (token_usage a) = usage_total_tokens r" by blast
    with False r m show ?thesis by auto
  qed
qed

theorem token_usage_total_witness:
  "anthropic_token_usage claude_pong = Inr (token_usage claude_record)
   \<and> total_tokens (token_usage claude_record) = 7 + 5
   \<and> openai_token_usage (Some ''o1'') pong = Inr (token_usage o1_record)
   \<and> total_tokens (token_usage o1_record) = 115
   \<and> prompt_tokens (token_usage o1_record) + completion_tokens (token_usage o1_record) = 110
   \<and> TrackRequest o1_record
        \<in> set (events_since w_init
                 (snd (query_llm answering ''ping'' (Some a_client) (Some ''o1'') ''openai'' None
                         w_init)))"
proof -
  have a: "anthropic_token_usage claude_pong = Inr (token_usage claude_record)"
    by (simp add: usage_claude claude_record_def)
  have b: "openai_token_usage (Some ''o1'') pong = Inr (token_usage o1_record)"
    by (simp add: openai_token_usage_def TokenUsage_def pong_def startswith_def lower_def
                  lower_char_def Let_def o1_record_def)
  note inst = token_usage_total
      [of claude_pong "token_usage claude_record" "Some ''o1''" pong "token_usage o1_record"
          o1_record w_init answering "''ping''" a_client "Some ''o1''" "''openai''" None]
  from inst a have 1: "total_tokens (token_usage claude_record)
      = prompt_tokens (token_usage claude_record) + completion_tokens (token_usage claude_record)"
    by blast
  from inst b have 2: "total_tokens (token_usage o1_record) = usage_total_tokens pong"
    by blast
  have 3: "prompt_tokens (token_usage claude_record) = 7"
    "completion_tokens (token_usage claude_record) = 5"
    by (simp_all add: claude_record_def)
  have 4: "usage_total_tokens pong = 115"
    "prompt_tokens (token_usage o1_record) + completion_tokens (token_usage o1_record) = 110"
    by (simp_all add: pong_def o1_record_def)
  from inst tracked_o1 have 5:
    "if ''openai'' = ''anthropic''
     then total_tokens (token_usage o1_record)
            = prompt_tokens (token_usage o1_record) + completion_tokens (token_usage o1_record)
     else \<exists>msgs r. chat_completions_create answering a_client
                       (openai_kwargs (model o1_record) msgs) = Inr r
            \<and> total_tokens (token_usage o1_record) = usage_total_tokens r"
    by blast
  from a b 1 2 3 4 5 tracked_o1 show ?thesis by simp
qed

subsection \<open>Gemini: text without accounting\<close>

text \<open>
  C2. For provider gemini, when the provider answers, \<open>query_llm\<close> returns the response
  text; the only event of the run is the call to the provider, so no cost is computed and
  nothing is handed to the tracker, and the ledger is the one the run started from.
\<close>

theorem query_llm_gemini_untracked:
  assumes "generate_content d cl (resolve_model d mdl0 ''gemini'') prompt = Inr txt"
  shows "query_llm d prompt (Some cl) mdl0 ''gemini'' img w
           = (Inr (Some txt),
              w\<lparr>trace := trace w @ [GenerateContent cl (resolve_model d mdl0 ''gemini'') prompt],
                ticks := Suc (ticks w)\<rparr>)
         \<and> ledger (snd (query_llm d prompt (Some cl) mdl0 ''gemini'' img w)) = ledger w
         \<and> events_since w (snd (query_llm d prompt (Some cl) mdl0 ''gemini'' img w))
             = [GenerateContent cl (resolve_model d mdl0 ''gemini'') prompt]"
  using assms
  by (simp add: query_llm_Some query_llm_try_def time_time_def query_gemini_def emit_def
                except_Exception_def events_since_def Let_def)

theorem query_llm_gemini_untracked_witness:
  "generate_content answering a_client (resolve_model answering None ''gemini'') ''ping''
     = Inr ''pong''
   \<and> query_llm answering ''ping'' (Some a_client) None ''gemini'' (Some ''cat.png'') w_init
       = (Inr (Some ''pong''),
          \<lparr>trace = [GenerateContent a_client (Some ''gemini-pro'') ''ping''], ledger = [],
            ticks = 1\<rparr>)"
proof -
  have h: "generate_content answering a_client (resolve_model answering None ''gemini'') ''ping''
             = Inr ''pong''"
    by (simp add: answering_def)
  have m: "resolve_model answering None ''gemini'' = Some ''gemini-pro''"
    by (simp add: resolve_model_def default_model_def)
  from query_llm_gemini_untracked [OF h, of "Some ''cat.png''" w_init] h m show ?thesis
    by (simp add: w_init_def)
qed

subsection \<open>A provider call that raises\<close>

lemma unreachable_calls:
  "chat_completions_create unreachable cl kw = Inl (OtherException ''APIError'' ''down'')"
  "messages_create unreachable cl mk = Inl (OtherException ''APIError'' ''down'')"
  "generate_content unreachable cl m p = Inl (OtherException ''APIError'' ''down'')"
  by (simp_all add: unreachable_def answering_def)

lemma text_messages:
  "openai_messages d prov prompt None = Inr [\<lparr>role = ''user'', parts = [TextPart prompt]\<rparr>]"
  "anthropic_messages d prompt None = Inr [\<lparr>role = ''user'', parts = [TextPart prompt]\<rparr>]"
  by (simp_all add: openai_messages_def anthropic_messages_def)

text \<open>
  C6. If the provider call raises, in any of the three branches, \<open>query_llm\<close> returns
  \<open>None\<close>. The run adds two events, the call and the message on standard error: no cost
  is computed, no record is built or handed to \<open>track_request\<close>, and the ledger is
  unchanged.
\<close>

theorem query_llm_provider_error:
  "(prov \<in> set [''openai'', ''local'', ''deepseek'', ''azure'']
      \<and> openai_messages d prov prompt img = Inr msgs
      \<and> chat_completions_create d cl (openai_kwargs (resolve_model d mdl0 prov) msgs) = Inl e
    \<longrightarrow> query_llm d prompt (Some cl) mdl0 prov img w
          = (Inr None,
             w\<lparr>trace := trace w
                  @ [ChatCompletionsCreate cl (openai_kwargs (resolve_model d mdl0 prov) msgs),
                     Stderr (''Error querying LLM: '' @ str_exn e)],
               ticks := Suc (ticks w)\<rparr>))
   \<and> (anthropic_messages d prompt img = Inr msgs
      \<and> messages_create d cl
           \<lparr>mk_model = resolve_model d mdl0 ''anthropic'', mk_max_tokens = 1000,
             mk_messages = msgs\<rparr> = Inl e
    \<longrightarrow> query_llm d prompt (Some cl) mdl0 ''anthropic'' img w
          = (Inr None,
             w\<lparr>trace := trace w
                  @ [MessagesCreate cl
                       \<lparr>mk_model = resolve_model d mdl0 ''anthropic'', mk_max_tokens = 1000,
                         mk_messages = msgs\<rparr>,
                     Stderr (''Error querying LLM: '' @ str_exn e)],
               ticks := Suc (ticks w)\<rparr>))
   \<and> (generate_content d cl (resolve_model d mdl0 ''gemini'') prompt = Inl e
    \<longrightarrow> query_llm d prompt (Some cl) mdl0 ''gemini'' img w
          = (Inr None,
             w\<lparr>trace := trace w
                  @ [GenerateContent cl (resolve_model d mdl0 ''gemini'') prompt,
                     Stderr (''Error querying LLM: '' @ str_exn e)],
               ticks := Suc (ticks w)\<rparr>))"
proof (intro conjI impI)
  assume "prov \<in> set [''openai'', ''local'', ''deepseek'', ''azure'']
      \<and> openai_messages d prov prompt img = Inr msgs
      \<and> chat_completions_create d cl (openai_kwargs (resolve_model d mdl0 prov) msgs) = Inl e"
  then show "query_llm d prompt (Some cl) mdl0 prov img w
          = (Inr None,
             w\<lparr>trace := trace w
                  @ [ChatCompletionsCreate cl (openai_kwargs (resolve_model d mdl0 prov) msgs),
                     Stderr (''Error querying LLM: '' @ str_exn e)],
               ticks := Suc (ticks w)\<rparr>)"
    by (simp add: query_llm_Some query_llm_try_def time_time_def query_openai_style_def
                  emit_def except_Exception_def Let_def)
next
  assume "anthropic_messages d prompt img = Inr msgs
      \<and> messages_create d cl
           \<lparr>mk_model = resolve_model d mdl0 ''anthropic'', mk_max_tokens = 1000,
             mk_messages = msgs\<rparr> = Inl e"
  then show "query_llm d prompt (Some cl) mdl0 ''anthropic'' img w
          = (Inr None,
             w\<lparr>trace := trace w
                  @ [MessagesCreate cl
                       \<lparr>mk_model = resolve_model d mdl0 ''anthropic'', mk_max_tokens = 1000,
                         mk_messages = msgs\<rparr>,
                     Stderr (''Error querying LLM: '' @ str_exn e)],
               ticks := Suc (ticks w)\<rparr>)"
    by (simp add: query_llm_Some query_llm_try_def time_time_def query_anthropic_def
                  emit_def except_Exception_def Let_def)
next
  assume "generate_content d cl (resolve_model d mdl0 ''gemini'') prompt = Inl e"
  then show "query_llm d prompt (Some cl) mdl0 ''gemini'' img w
          = (Inr None,
             w\<lparr>trace := trace w
                  @ [GenerateContent cl (resolve_model d mdl0 ''gemini'') prompt,
                     Stderr (''Error querying LLM: '' @ str_exn e)],
               ticks := Suc (ticks w)\<rparr>)"
    by (simp add: query_llm_Some query_llm_try_def time_time_def query_gemini_def
                  emit_def except_Exception_def Let_def)
qed

theorem query_llm_provider_error_witness:
  "(''deepseek'' \<in> set [''openai'', ''local'', ''deepseek'', ''azure'']
    \<and> openai_messages unreachable ''deepseek'' ''ping'' None
        = Inr [\<lparr>role = ''user'', parts = [TextPart ''ping'']\<rparr>]
    \<and> chat_completions_create unreachable a_client
         (openai_kwargs (resolve_model unreachable None ''deepseek'')
            [\<lparr>role = ''user'', parts = [TextPart ''ping'']\<rparr>])
        = Inl (OtherException ''APIError'' ''down''))
   \<and> fst (query_llm unreachable ''ping'' (Some a_client) None ''deepseek'' None w_init) = Inr None
   \<and> ledger (snd (query_llm unreachable ''ping'' (Some a_client) None ''deepseek'' None w_init))
       = ledger w_init
   \<and> fst (query_llm unreachable ''ping'' (Some a_client) None ''anthropic'' None w_init) = Inr None
   \<and> ledger (snd (query_llm unreachable ''ping'' (Some a_client) None ''anthropic'' None w_init))
       = ledger w_init
   \<and> fst (query_llm unreachable ''ping'' (Some a_client) None ''gemini'' None w_init) = Inr None
   \<and> ledger (snd (query_llm unreachable ''ping'' (Some a_client) None ''gemini'' None w_init))
       = ledger w_init"
proof -
  let ?msgs = "[\<lparr>role = ''user'', parts = [TextPart ''ping'']\<rparr>]"
  let ?e = "OtherException ''APIError'' ''down''"
  have h1: "''deepseek'' \<in> set [''openai'', ''local'', ''deepseek'', ''azure'']
    \<and> openai_messages unreachable ''deepseek'' ''ping'' None = Inr ?msgs
    \<and> chat_completions_create unreachable a_client
         (openai_kwargs (resolve_model unreachable None ''deepseek'') ?msgs) = Inl ?e"
    by (simp add: unreachable_calls text_messages)
  have h2: "anthropic_messages unreachable ''ping'' None = Inr ?msgs
      \<and> messages_create unreachable a_client
           \<lparr>mk_model = resolve_model unreachable None ''anthropic'', mk_max_tokens = 1000,
             mk_messages = ?msgs\<rparr> = Inl ?e"
    by (simp add: unreachable_calls text_messages)
  have h3: "generate_content unreachable a_client (resolve_model unreachable None ''gemini'')
              ''ping'' = Inl ?e"
    by (simp add: unreachable_calls)
  note inst = query_llm_provider_error
      [of "''deepseek''" unreachable "''ping''" None ?msgs a_client None ?e w_init]
  from inst h1 have r1: "query_llm unreachable ''ping'' (Some a_client) None ''deepseek'' None w_init
          = (Inr None,
             w_init\<lparr>trace := trace w_init
                  @ [ChatCompletionsCreate a_client
                       (openai_kwargs (resolve_model unreachable None ''deepseek'') ?msgs),
                     Stderr (''Error querying LLM: '' @ str_exn ?e)],
               ticks := Suc (ticks w_init)\<rparr>)"
    by blast
  from inst h2 have r2: "query_llm unreachable ''ping'' (Some a_client) None ''anthropic'' None w_init
          = (Inr None,
             w_init\<lparr>trace := trace w_init
                  @ [MessagesCreate a_client
                       \<lparr>mk_model = resolve_model unreachable None ''anthropic'',
                         mk_max_tokens = 1000, mk_messages = ?msgs\<rparr>,
                     Stderr (''Error querying LLM: '' @ str_exn ?e)],
               ticks := Suc (ticks w_init)\<rparr>)"
    by blast
  from inst h3 have r3: "query_llm unreachable ''ping'' (Some a_client) None ''gemini'' None w_init
          = (Inr None,
             w_init\<lparr>trace := trace w_init
                  @ [GenerateContent a_client (resolve_model unreachable None ''gemini'') ''ping'',
                     Stderr (''Error querying LLM: '' @ str_exn ?e)],
               ticks := Suc (ticks w_init)\<rparr>)"
    by blast
  from h1 show ?thesis by (simp add: r1 r2 r3)
qed

subsection \<open>Configuration errors\<close>

text \<open>
  C7. \<open>create_llm_client\<close> raises a \<open>ValueError\<close> when the API key of the selected provider
  (openai, azure, deepseek, anthropic, gemini) is absent from the environment (or empty),
  and for every provider name outside the supported set; provider local needs no key. It
  fails before anything else happens: the world is unchanged, and \<open>query_llm\<close> called
  without a client lets the exception through with the trace and the ledger as they were,
  no provider having been called.
\<close>

theorem create_llm_client_fails_fast:
  "(\<not> truthy (getenv d ''OPENAI_API_KEY'') \<longrightarrow>
      create_llm_client d ''openai'' w
        = (Inl (ValueError ''OPENAI_API_KEY not found in environment variables''), w))
   \<and> (\<not> truthy (getenv d ''AZURE_OPENAI_API_KEY'') \<longrightarrow>
      create_llm_client d ''azure'' w
        = (Inl (ValueError ''AZURE_OPENAI_API_KEY not found in environment variables''), w))
   \<and> (\<not> truthy (getenv d ''DEEPSEEK_API_KEY'') \<longrightarrow>
      create_llm_client d ''deepseek'' w
        = (Inl (ValueError ''DEEPSEEK_API_KEY not found in environment variables''), w))
   \<and> (\<not> truthy (getenv d ''ANTHROPIC_API_KEY'') \<longrightarrow>
      create_llm_client d ''anthropic'' w
        = (Inl (ValueError ''ANTHROPIC_API_KEY not found in environment variables''), w))
   \<and> (\<not> truthy (getenv d ''GOOGLE_API_KEY'') \<longrightarrow>
      create_llm_client d ''gemini'' w
        = (Inl (ValueError ''GOOGLE_API_KEY not found in environment variables''), w))
   \<and> (prov \<notin> set [''openai'', ''azure'', ''deepseek'', ''anthropic'', ''gemini'', ''local''] \<longrightarrow>
      create_llm_client d prov w = (Inl (ValueError (''Unsupported provider: '' @ prov)), w))
   \<and> create_llm_client d ''local'' w
       = (Inr (OpenAI ''not-needed'' (Some ''http://192.168.180.137:8006/v1'')), w)
   \<and> (fst (create_llm_client d prov w) = Inl e \<longrightarrow>
      query_llm d prompt None mdl0 prov img w = (Inl e, w))"
proof -
  have last: "query_llm d prompt None mdl0 prov img w = (Inl e, w)"
    if "fst (create_llm_client d prov w) = Inl e"
  proof -
    have "snd (create_llm_client d prov w) = w"
      using that by (auto simp: create_llm_client_def Let_def split: if_splits)
    with that have "create_llm_client d prov w = (Inl e, w)"
      by (metis prod.collapse)
    then show ?thesis by (simp add: query_llm_def)
  qed
  show ?thesis
    by (intro conjI impI last) (simp_all add: create_llm_client_def)
qed

theorem create_llm_client_fails_fast_witness:
  "\<not> truthy (getenv answering ''OPENAI_API_KEY'')
   \<and> \<not> truthy (getenv answering ''GOOGLE_API_KEY'')
   \<and> ''mistral'' \<notin> set [''openai'', ''azure'', ''deepseek'', ''anthropic'', ''gemini'', ''local'']
   \<and> create_llm_client answering ''openai'' w_init
       = (Inl (ValueError ''OPENAI_API_KEY not found in environment variables''), w_init)
   \<and> create_llm_client answering ''mistral'' w_init
       = (Inl (ValueError ''Unsupported provider: mistral''), w_init)
   \<and> query_llm answering ''ping'' None None ''gemini'' None w_init
       = (Inl (ValueError ''GOOGLE_API_KEY not found in environment variables''), w_init)"
proof -
  have env: "\<not> truthy (getenv answering k)" for k
    by (simp add: answering_def)
  have p: "''mistral'' \<notin> set [''openai'', ''azure'', ''deepseek'', ''anthropic'', ''gemini'', ''local'']"
    by simp
  note a = create_llm_client_fails_fast
      [of answering w_init "''mistral''"
          "ValueError ''GOOGLE_API_KEY not found in environment variables''"]
  note b = create_llm_client_fails_fast
      [of answering w_init "''gemini''"
          "ValueError ''GOOGLE_API_KEY not found in environment variables''" "''ping''" None None]
  from a env [of "''OPENAI_API_KEY''"] have 1: "create_llm_client answering ''openai'' w_init
       = (Inl (ValueError ''OPENAI_API_KEY not found in environment variables''), w_init)"
    by blast
  from a p have 2: "create_llm_client answering ''mistral'' w_init
       = (Inl (ValueError (''Unsupported provider: '' @ ''mistral'')), w_init)"
    by blast
  from b env [of "''GOOGLE_API_KEY''"] have 3: "create_llm_client answering ''gemini'' w_init
        = (Inl (ValueError ''GOOGLE_API_KEY not found in environment variables''), w_init)"
    by blast
  from b 3 have 4: "query_llm answering ''ping'' None None ''gemini'' None w_init
       = (Inl (ValueError ''GOOGLE_API_KEY not found in environment variables''), w_init)"
    by simp
  from env p 1 2 4 show ?thesis by simp
qed

subsection \<open>The image attachment\<close>

lemma except_Exception_extends:
  "\<exists>evs. trace (snd (except_Exception r)) = trace (snd r) @ evs"
  by (cases r) (auto simp: except_Exception_def emit_def split: sum.splits)

lemma track_and_return_extends:
  "\<exists>evs. trace (snd (track_and_return d cr ev txt tu tt prov mdl w)) = trace w @ ev # evs"
proof -
  obtain res w' where run: "track_and_return d cr ev txt tu tt prov mdl w = (res, w')"
    by force
  from track_and_return_trace [OF run] run show ?thesis by auto
qed

lemma query_openai_style_request:
  assumes "openai_messages d prov prompt img = Inr msgs"
  shows "\<exists>evs. trace (snd (query_openai_style d prompt cl mdl prov img st w))
           = trace w @ ChatCompletionsCreate cl (openai_kwargs mdl msgs) # evs"
proof (cases "chat_completions_create d cl (openai_kwargs mdl msgs)")
  case (Inl e)
  with assms show ?thesis
    by (simp add: query_openai_style_def emit_def Let_def)
next
  case r: (Inr r)
  show ?thesis
  proof (cases "openai_token_usage mdl r")
    case (Inl e)
    with assms r show ?thesis
      by (simp add: query_openai_style_def emit_def time_time_def Let_def)
  next
    case (Inr tu)
    let ?w2 = "w\<lparr>trace := trace w @ [ChatCompletionsCreate cl (openai_kwargs mdl msgs)],
                   ticks := Suc (ticks w)\<rparr>"
    obtain evs where
      "trace (snd (track_and_return d
              (calculate_openai_cost d (prompt_tokens tu) (completion_tokens tu) mdl)
              (CalculateOpenAICost (prompt_tokens tu) (completion_tokens tu) mdl)
              (choice_content r) tu (clock d (ticks w) - st) prov mdl ?w2))
         = trace ?w2 @ CalculateOpenAICost (prompt_tokens tu) (completion_tokens tu) mdl # evs"
      using track_and_return_extends by blast
    with assms r Inr show ?thesis
      by (simp add: query_openai_style_def emit_def time_time_def Let_def)
  qed
qed

lemma query_anthropic_request:
  assumes "anthropic_messages d prompt img = Inr msgs"
  shows "\<exists>evs. trace (snd (query_anthropic d prompt cl mdl prov img st w))
           = trace w @ MessagesCreate cl
                         \<lparr>mk_model = mdl, mk_max_tokens = 1000, mk_messages = msgs\<rparr> # evs"
proof (cases "messages_create d cl \<lparr>mk_model = mdl, mk_max_tokens = 1000, mk_messages = msgs\<rparr>")
  case (Inl e)
  with assms show ?thesis
    by (simp add: query_anthropic_def emit_def Let_def)
next
  case r: (Inr r)
  show ?thesis
  proof (cases "anthropic_token_usage r")
    case (Inl e)
    with assms r show ?thesis
      by (simp add: query_anthropic_def emit_def time_time_def Let_def)
  next
    case (Inr tu)
    let ?w2 = "w\<lparr>trace := trace w @ [MessagesCreate cl
                 \<lparr>mk_model = mdl, mk_max_tokens = 1000, mk_messages = msgs\<rparr>],
                   ticks := Suc (ticks w)\<rparr>"
    obtain evs where
      "trace (snd (track_and_return d
              (calculate_claude_cost d (prompt_tokens tu) (completion_tokens tu) mdl)
              (CalculateClaudeCost (prompt_tokens tu) (completion_tokens tu) mdl)
              (content_text r) tu (clock d (ticks w) - st) prov mdl ?w2))
         = trace ?w2 @ CalculateClaudeCost (prompt_tokens tu) (completion_tokens tu) mdl # evs"
      using track_and_return_extends by blast
    with assms r Inr show ?thesis
      by (simp add: query_anthropic_def emit_def time_time_def Let_def)
  qed
qed

lemma events_since_append:
  "trace w' = trace w @ evs \<Longrightarrow> events_since w w' = evs"
  by (simp add: events_since_def)

lemma openai_messages_text_only:
  "prov \<noteq> ''openai'' \<Longrightarrow>
   openai_messages d prov prompt img = Inr [\<lparr>role = ''user'', parts = [TextPart prompt]\<rparr>]"
  by (simp add: openai_messages_def Let_def)

lemma query_openai_style_ignores_image:
  "prov \<noteq> ''openai'' \<Longrightarrow>
   query_openai_style d prompt cl mdl prov img st w
     = query_openai_style d prompt cl mdl prov None st w"
  by (simp add: query_openai_style_def openai_messages_text_only)

text \<open>
  C9. For providers azure, deepseek, local and gemini the image path is ignored:
  \<open>query_llm\<close> does with any image path exactly what it does with none, and the message
  of the three OpenAI-style ones holds the text alone (the gemini request holds the
  prompt alone). For providers openai and anthropic a non-empty image path whose file is
  read puts the encoded image into the request, as a data URL for openai and as a
  base64 source for anthropic.
\<close>

theorem image_path_attached_by_openai_and_anthropic_only:
  "(prov \<in> set [''azure'', ''deepseek'', ''local'', ''gemini''] \<longrightarrow>
      query_llm d prompt client_arg mdl0 prov img w = query_llm d prompt client_arg mdl0 prov None w)
   \<and> (prov \<in> set [''azure'', ''deepseek'', ''local''] \<longrightarrow>
      openai_messages d prov prompt img = Inr [\<lparr>role = ''user'', parts = [TextPart prompt]\<rparr>])
   \<and> (img = Some path \<and> path \<noteq> [] \<and> encode_image_file d path = Inr (enc, mime) \<longrightarrow>
      (\<exists>evs. events_since w (snd (query_llm d prompt (Some cl) mdl0 ''openai'' img w))
         = ChatCompletionsCreate cl
             (openai_kwargs (resolve_model d mdl0 ''openai'')
                [\<lparr>role = ''user'',
                  parts = [TextPart prompt,
                           ImageUrlPart (''data:'' @ mime @ '';base64,'' @ enc)]\<rparr>]) # evs)
      \<and> (\<exists>evs. events_since w (snd (query_llm d prompt (Some cl) mdl0 ''anthropic'' img w))
         = MessagesCreate cl
             \<lparr>mk_model = resolve_model d mdl0 ''anthropic'', mk_max_tokens = 1000,
               mk_messages = [\<lparr>role = ''user'',
                               parts = [TextPart prompt, ImagePart mime enc]\<rparr>]\<rparr> # evs))"
proof (intro conjI impI)
  assume p: "prov \<in> set [''azure'', ''deepseek'', ''local'', ''gemini'']"
  then have "prov \<noteq> ''openai''" by auto
  have e: "query_llm_try d prompt cl mdl0 prov img w'
          = query_llm_try d prompt cl mdl0 prov None w'" for cl w'
  proof (cases "prov = ''gemini''")
    case True
    then show ?thesis by (simp add: query_llm_try_def)
  next
    case False
    with p have q: "prov \<in> set [''openai'', ''local'', ''deepseek'', ''azure'']"
      and n: "prov \<noteq> ''openai''"
      by auto
    have t: "query_llm_try d prompt cl mdl0 prov i w'
          = query_openai_style d prompt cl (resolve_model d mdl0 prov) prov i
              (clock d (ticks w')) (w'\<lparr>ticks := Suc (ticks w')\<rparr>)" for i
      using q by (simp add: query_llm_try_def time_time_def Let_def)
    show ?thesis
      unfolding t by (rule query_openai_style_ignores_image [OF n])
  qed
  show "query_llm d prompt client_arg mdl0 prov img w
               = query_llm d prompt client_arg mdl0 prov None w"
    by (simp only: query_llm_def e)
next
  assume "prov \<in> set [''azure'', ''deepseek'', ''local'']"
  then have "prov \<noteq> ''openai''" by auto
  then show "openai_messages d prov prompt img = Inr [\<lparr>role = ''user'', parts = [TextPart prompt]\<rparr>]"
    by (rule openai_messages_text_only)
next
  assume h: "img = Some path \<and> path \<noteq> [] \<and> encode_image_file d path = Inr (enc, mime)"
  let ?msgs = "[\<lparr>role = ''user'',
                  parts = [TextPart prompt,
                           ImageUrlPart (''data:'' @ mime @ '';base64,'' @ enc)]\<rparr>]"
  from h have "openai_messages d ''openai'' prompt img = Inr ?msgs"
    by (simp add: openai_messages_def Let_def)
  from query_openai_style_request [OF this]
  obtain evs where evs:
    "trace (snd (query_openai_style d prompt cl (resolve_model d mdl0 ''openai'') ''openai'' img
                   (clock d (ticks w)) (w\<lparr>ticks := Suc (ticks w)\<rparr>)))
       = trace (w\<lparr>ticks := Suc (ticks w)\<rparr>)
           @ ChatCompletionsCreate cl (openai_kwargs (resolve_model d mdl0 ''openai'') ?msgs) # evs"
    by blast
  obtain evs' where evs':
    "trace (snd (query_llm d prompt (Some cl) mdl0 ''openai'' img w))
       = trace (snd (query_openai_style d prompt cl (resolve_model d mdl0 ''openai'') ''openai'' img
                   (clock d (ticks w)) (w\<lparr>ticks := Suc (ticks w)\<rparr>))) @ evs'"
    using except_Exception_extends
      [of "query_openai_style d prompt cl (resolve_model d mdl0 ''openai'') ''openai'' img
                   (clock d (ticks w)) (w\<lparr>ticks := Suc (ticks w)\<rparr>)"]
    by (auto simp: query_llm_Some query_llm_try_def time_time_def Let_def)
  from evs evs'
  have "trace (snd (query_llm d prompt (Some cl) mdl0 ''openai'' img w))
       = trace w @ (ChatCompletionsCreate cl (openai_kwargs (resolve_model d mdl0 ''openai'') ?msgs)
                    # evs @ evs')"
    by simp
  from events_since_append [OF this]
  show "\<exists>evs. events_since w (snd (query_llm d prompt (Some cl) mdl0 ''openai'' img w))
         = ChatCompletionsCreate cl
             (openai_kwargs (resolve_model d mdl0 ''openai'') ?msgs) # evs"
    by blast
next
  assume h: "img = Some path \<and> path \<noteq> [] \<and> encode_image_file d path = Inr (enc, mime)"
  let ?msgs = "[\<lparr>role = ''user'', parts = [TextPart prompt, ImagePart mime enc]\<rparr>]"
  let ?kw = "\<lparr>mk_model = resolve_model d mdl0 ''anthropic'', mk_max_tokens = 1000,
               mk_messages = ?msgs\<rparr>"
  from h have "anthropic_messages d prompt img = Inr ?msgs"
    by (simp add: anthropic_messages_def Let_def)
  from query_anthropic_request [OF this]
  obtain evs where evs:
    "trace (snd (query_anthropic d prompt cl (resolve_model d mdl0 ''anthropic'') ''anthropic'' img
                   (clock d (ticks w)) (w\<lparr>ticks := Suc (ticks w)\<rparr>)))
       = trace (w\<lparr>ticks := Suc (ticks w)\<rparr>) @ MessagesCreate cl ?kw # evs"
    by blast
  obtain evs' where evs':
    "trace (snd (query_llm d prompt (Some cl) mdl0 ''anthropic'' img w))
       = trace (snd (query_anthropic d prompt cl (resolve_model d mdl0 ''anthropic'') ''anthropic''
                   img (clock d (ticks w)) (w\<lparr>ticks := Suc (ticks w)\<rparr>))) @ evs'"
    using except_Exception_extends
      [of "query_anthropic d prompt cl (resolve_model d mdl0 ''anthropic'') ''anthropic'' img
                   (clock d (ticks w)) (w\<lparr>ticks := Suc (ticks w)\<rparr>)"]
    by (auto simp: query_llm_Some query_llm_try_def time_time_def Let_def)
  from evs evs'
  have "trace (snd (query_llm d prompt (Some cl) mdl0 ''anthropic'' img w))
       = trace w @ (MessagesCreate cl ?kw # evs @ evs')"
    by simp
  from events_since_append [OF this]
  show "\<exists>evs. events_since w (snd (query_llm d prompt (Some cl) mdl0 ''anthropic'' img w))
         = MessagesCreate cl ?kw # evs"
    by blast
qed

theorem image_path_attached_by_openai_and_anthropic_only_witness:
  "''azure'' \<in> set [''azure'', ''deepseek'', ''local'', ''gemini'']
   \<and> ''azure'' \<in> set [''azure'', ''deepseek'', ''local'']
   \<and> query_llm answering ''ping'' (Some a_client) None ''azure'' (Some ''cat.png'') w_init
       = query_llm answering ''ping'' (Some a_client) None ''azure'' None w_init
   \<and> openai_messages answering ''azure'' ''ping'' (Some ''cat.png'')
       = Inr [\<lparr>role = ''user'', parts = [TextPart ''ping'']\<rparr>]
   \<and> encode_image_file answering ''cat.png'' = Inr (''aW1n'', ''image/png'')
   \<and> (\<exists>evs. events_since w_init
               (snd (query_llm answering ''ping'' (Some a_client) None ''openai''
                       (Some ''cat.png'') w_init))
         = ChatCompletionsCreate a_client
             (openai_kwargs (resolve_model answering None ''openai'')
                [\<lparr>role = ''user'',
                  parts = [TextPart ''ping'',
                           ImageUrlPart ''data:image/png;base64,aW1n'']\<rparr>]) # evs)
   \<and> (\<exists>evs. events_since w_init
               (snd (query_llm answering ''ping'' (Some a_client) None ''anthropic''
                       (Some ''cat.png'') w_init))
         = MessagesCreate a_client
             \<lparr>mk_model = resolve_model answering None ''anthropic'', mk_max_tokens = 1000,
               mk_messages = [\<lparr>role = ''user'',
                               parts = [TextPart ''ping'',
                                        ImagePart ''image/png'' ''aW1n'']\<rparr>]\<rparr> # evs)"
proof -
  have h1: "''azure'' \<in> set [''azure'', ''deepseek'', ''local'', ''gemini'']"
    and h2: "''azure'' \<in> set [''azure'', ''deepseek'', ''local'']"
    by simp_all
  have h3: "Some ''cat.png'' = Some ''cat.png'' \<and> ''cat.png'' \<noteq> []
            \<and> encode_image_file answering ''cat.png'' = Inr (''aW1n'', ''image/png'')"
    by (simp add: encode_image_file_def answering_def)
  note inst = image_path_attached_by_openai_and_anthropic_only
      [of "''azure''" answering "''ping''" "Some a_client" None "Some ''cat.png''" w_init
          "''cat.png''" "''aW1n''" "''image/png''" a_client]
  from inst h1 have 1:
    "query_llm answering ''ping'' (Some a_client) None ''azure'' (Some ''cat.png'') w_init
       = query_llm answering ''ping'' (Some a_client) None ''azure'' None w_init"
    by blast
  from inst h2 have 2: "openai_messages answering ''azure'' ''ping'' (Some ''cat.png'')
       = Inr [\<lparr>role = ''user'', parts = [TextPart ''ping'']\<rparr>]"
    by blast
  from inst h3 have 3: "(\<exists>evs. events_since w_init
               (snd (query_llm answering ''ping'' (Some a_client) None ''openai''
                       (Some ''cat.png'') w_init))
         = ChatCompletionsCreate a_client
             (openai_kwargs (resolve_model answering None ''openai'')
                [\<lparr>role = ''user'',
                  parts = [TextPart ''ping'',
                           ImageUrlPart (''data:'' @ ''image/png'' @ '';base64,'' @ ''aW1n'')]\<rparr>])
           # evs)
      \<and> (\<exists>evs. events_since w_init
               (snd (query_llm answering ''ping'' (Some a_client) None ''anthropic''
                       (Some ''cat.png'') w_init))
         = MessagesCreate a_client
             \<lparr>mk_model = resolve_model answering None ''anthropic'', mk_max_tokens = 1000,
               mk_messages = [\<lparr>role = ''user'',
                               parts = [TextPart ''ping'',
                                        ImagePart ''image/png'' ''aW1n'']\<rparr>]\<rparr> # evs)"
    by blast
  from h1 h2 h3 1 2 3 show ?thesis by simp
qed

subsection \<open>A tracking failure\<close>

text \<open>
  C1, as the spec states it, fails: the provider answers pong, the cost calculator (or
  the tracker) raises, and \<open>query_llm\<close> returns \<open>None\<close>, not the text.
\<close>

theorem query_llm_tracking_failure_counterexample:
  "chat_completions_create unpriced a_client
     (openai_kwargs (Some ''gpt-4o'') [\<lparr>role = ''user'', parts = [TextPart ''ping'']\<rparr>]) = Inr pong
   \<and> choice_content pong = ''pong''
   \<and> calculate_openai_cost unpriced 10 100 (Some ''gpt-4o'')
       = Inl (ValueError ''Unsupported OpenAI model for cost calculation'')
   \<and> fst (query_llm unpriced ''ping'' (Some a_client) None ''openai'' None w_init) = Inr None
   \<and> fst (query_llm unpriced ''ping'' (Some a_client) None ''openai'' None w_init)
       \<noteq> Inr (Some (choice_content pong))
   \<and> chat_completions_create unwritable a_client
     (openai_kwargs (Some ''o1'') [\<lparr>role = ''user'', parts = [TextPart ''ping'']\<rparr>]) = Inr pong
   \<and> fst (track_request unwritable o1_record [])
       = Some (OtherException ''OSError'' ''read-only'')
   \<and> fst (query_llm unwritable ''ping'' (Some a_client) (Some ''o1'') ''openai'' None w_init)
       = Inr None"
  by (simp add: run_defs unpriced_def unwritable_def answering_def)

text \<open>
  C1, amended. The cost calculation and \<open>track_request\<close> run inside the same \<open>try\<close> as
  the provider call. If the provider call succeeds but the cost calculation or
  \<open>track_request\<close> raises, the exception is caught by that handler: \<open>query_llm\<close> reports
  it on standard error and returns \<open>None\<close>, in the OpenAI-style branch and in the
  Anthropic branch alike.
\<close>

theorem query_llm_tracking_failure_returns_None:
  "(prov \<in> set [''openai'', ''local'', ''deepseek'', ''azure'']
      \<and> openai_messages d prov prompt img = Inr msgs
      \<and> chat_completions_create d cl (openai_kwargs (resolve_model d mdl0 prov) msgs) = Inr r
      \<and> openai_token_usage (resolve_model d mdl0 prov) r = Inr tu
      \<and> (calculate_openai_cost d (prompt_tokens tu) (completion_tokens tu)
            (resolve_model d mdl0 prov) = Inl e
          \<or> (\<exists>c a. calculate_openai_cost d (prompt_tokens tu) (completion_tokens tu)
                      (resolve_model d mdl0 prov) = Inr c
                \<and> APIResponse (choice_content r) tu c
                     (clock d (Suc (ticks w)) - clock d (ticks w)) prov
                     (resolve_model d mdl0 prov) = Inr a
                \<and> fst (track_request d a (ledger w)) = Some e))
    \<longrightarrow> fst (query_llm d prompt (Some cl) mdl0 prov img w) = Inr None
        \<and> last (trace (snd (query_llm d prompt (Some cl) mdl0 prov img w)))
            = Stderr (''Error querying LLM: '' @ str_exn e))
   \<and> (anthropic_messages d prompt img = Inr msgs
      \<and> messages_create d cl
           \<lparr>mk_model = resolve_model d mdl0 ''anthropic'', mk_max_tokens = 1000,
             mk_messages = msgs\<rparr> = Inr r'
      \<and> anthropic_token_usage r' = Inr tu
      \<and> (calculate_claude_cost d (prompt_tokens tu) (completion_tokens tu)
            (resolve_model d mdl0 ''anthropic'') = Inl e
          \<or> (\<exists>c a. calculate_claude_cost d (prompt_tokens tu) (completion_tokens tu)
                      (resolve_model d mdl0 ''anthropic'') = Inr c
                \<and> APIResponse (content_text r') tu c
                     (clock d (Suc (ticks w)) - clock d (ticks w)) ''anthropic''
                     (resolve_model d mdl0 ''anthropic'') = Inr a
                \<and> fst (track_request d a (ledger w)) = Some e))
    \<longrightarrow> fst (query_llm d prompt (Some cl) mdl0 ''anthropic'' img w) = Inr None
        \<and> last (trace (snd (query_llm d prompt (Some cl) mdl0 ''anthropic'' img w)))
            = Stderr (''Error querying LLM: '' @ str_exn e))"
proof (intro conjI impI)
  assume h: "prov \<in> set [''openai'', ''local'', ''deepseek'', ''azure'']
      \<and> openai_messages d prov prompt img = Inr msgs
      \<and> chat_completions_create d cl (openai_kwargs (resolve_model d mdl0 prov) msgs) = Inr r
      \<and> openai_token_usage (resolve_model d mdl0 prov) r = Inr tu
      \<and> (calculate_openai_cost d (prompt_tokens tu) (completion_tokens tu)
            (resolve_model d mdl0 prov) = Inl e
          \<or> (\<exists>c a. calculate_openai_cost d (prompt_tokens tu) (completion_tokens tu)
                      (resolve_model d mdl0 prov) = Inr c
                \<and> APIResponse (choice_content r) tu c
                     (clock d (Suc (ticks w)) - clock d (ticks w)) prov
                     (resolve_model d mdl0 prov) = Inr a
                \<and> fst (track_request d a (ledger w)) = Some e))"
  then have "query_llm d prompt (Some cl) mdl0 prov img w
      = except_Exception (track_and_return d
          (calculate_openai_cost d (prompt_tokens tu) (completion_tokens tu)
             (resolve_model d mdl0 prov))
          (CalculateOpenAICost (prompt_tokens tu) (completion_tokens tu)
             (resolve_model d mdl0 prov))
          (choice_content r) tu (clock d (Suc (ticks w)) - clock d (ticks w)) prov
          (resolve_model d mdl0 prov)
          (w\<lparr>trace := trace w @ [ChatCompletionsCreate cl
                                     (openai_kwargs (resolve_model d mdl0 prov) msgs)],
             ticks := Suc (Suc (ticks w))\<rparr>))"
    by (simp add: query_llm_Some query_llm_try_def time_time_def query_openai_style_def
                  emit_def Let_def)
  with h show "fst (query_llm d prompt (Some cl) mdl0 prov img w) = Inr None"
    and "last (trace (snd (query_llm d prompt (Some cl) mdl0 prov img w)))
            = Stderr (''Error querying LLM: '' @ str_exn e)"
    by (auto simp: track_and_return_def except_Exception_def emit_def Let_def
             split: prod.splits)
next
  assume h: "anthropic_messages d prompt img = Inr msgs
      \<and> messages_create d cl
           \<lparr>mk_model = resolve_model d mdl0 ''anthropic'', mk_max_tokens = 1000,
             mk_messages = msgs\<rparr> = Inr r'
      \<and> anthropic_token_usage r' = Inr tu
      \<and> (calculate_claude_cost d (prompt_tokens tu) (completion_tokens tu)
            (resolve_model d mdl0 ''anthropic'') = Inl e
          \<or> (\<exists>c a. calculate_claude_cost d (prompt_tokens tu) (completion_tokens tu)
                      (resolve_model d mdl0 ''anthropic'') = Inr c
                \<and> APIResponse (content_text r') tu c
                     (clock d (Suc (ticks w)) - clock d (ticks w)) ''anthropic''
                     (resolve_model d mdl0 ''anthropic'') = Inr a
                \<and> fst (track_request d a (ledger w)) = Some e))"
  then have "query_llm d prompt (Some cl) mdl0 ''anthropic'' img w
      = except_Exception (track_and_return d
          (calculate_claude_cost d (prompt_tokens tu) (completion_tokens tu)
             (resolve_model d mdl0 ''anthropic''))
          (CalculateClaudeCost (prompt_tokens tu) (completion_tokens tu)
             (resolve_model d mdl0 ''anthropic''))
          (content_text r') tu (clock d (Suc (ticks w)) - clock d (ticks w)) ''anthropic''
          (resolve_model d mdl0 ''anthropic'')
          (w\<lparr>trace := trace w @ [MessagesCreate cl
               \<lparr>mk_model = resolve_model d mdl0 ''anthropic'', mk_max_tokens = 1000,
                 mk_messages = msgs\<rparr>],
             ticks := Suc (Suc (ticks w))\<rparr>))"
    by (simp add: query_llm_Some query_llm_try_def time_time_def query_anthropic_def
                  emit_def Let_def)
  with h show "fst (query_llm d prompt (Some cl) mdl0 ''anthropic'' img w) = Inr None"
    and "last (trace (snd (query_llm d prompt (Some cl) mdl0 ''anthropic'' img w)))
            = Stderr (''Error querying LLM: '' @ str_exn e)"
    by (auto simp: track_and_return_def except_Exception_def emit_def Let_def
             split: prod.splits)
qed

theorem query_llm_tracking_failure_returns_None_witness:
  "(''openai'' \<in> set [''openai'', ''local'', ''deepseek'', ''azure'']
      \<and> openai_messages unpriced ''openai'' ''ping'' None
          = Inr [\<lparr>role = ''user'', parts = [TextPart ''ping'']\<rparr>]
      \<and> chat_completions_create unpriced a_client
           (openai_kwargs (resolve_model unpriced None ''openai'')
              [\<lparr>role = ''user'', parts = [TextPart ''ping'']\<rparr>]) = Inr pong
      \<and> openai_token_usage (resolve_model unpriced None ''openai'') pong
          = Inr \<lparr>prompt_tokens = 10, completion_tokens = 100, total_tokens = 115,
                 reasoning_tokens = None\<rparr>
      \<and> calculate_openai_cost unpriced 10 100 (resolve_model unpriced None ''openai'')
          = Inl (ValueError ''Unsupported OpenAI model for cost calculation''))
   \<and> fst (query_llm unpriced ''ping'' (Some a_client) None ''openai'' None w_init) = Inr None
   \<and> (anthropic_messages unwritable ''ping'' None
          = Inr [\<lparr>role = ''user'', parts = [TextPart ''ping'']\<rparr>]
      \<and> messages_create unwritable a_client
           \<lparr>mk_model = resolve_model unwritable None ''anthropic'', mk_max_tokens = 1000,
             mk_messages = [\<lparr>role = ''user'', parts = [TextPart ''ping'']\<rparr>]\<rparr> = Inr claude_pong
      \<and> anthropic_token_usage claude_pong = Inr (token_usage claude_record)
      \<and> calculate_claude_cost unwritable 7 5 (resolve_model unwritable None ''anthropic'')
          = Inr (17 / 1000)
      \<and> APIResponse (content_text claude_pong) (token_usage claude_record) (17 / 1000)
           (clock unwritable (Suc (ticks w_init)) - clock unwritable (ticks w_init)) ''anthropic''
           (resolve_model unwritable None ''anthropic'') = Inr claude_record
      \<and> fst (track_request unwritable claude_record (ledger w_init))
          = Some (OtherException ''OSError'' ''read-only''))
   \<and> fst (query_llm unwritable ''ping'' (Some a_client) None ''anthropic'' None w_init) = Inr None"
proof -
  let ?msgs = "[\<lparr>role = ''user'', parts = [TextPart ''ping'']\<rparr>]"
  let ?tu = "\<lparr>prompt_tokens = 10, completion_tokens = 100, total_tokens = 115,
                 reasoning_tokens = None\<rparr>"
  let ?e1 = "ValueError ''Unsupported OpenAI model for cost calculation''"
  let ?e2 = "OtherException ''OSError'' ''read-only''"
  have h1: "''openai'' \<in> set [''openai'', ''local'', ''deepseek'', ''azure'']
      \<and> openai_messages unpriced ''openai'' ''ping'' None = Inr ?msgs
      \<and> chat_completions_create unpriced a_client
           (openai_kwargs (resolve_model unpriced None ''openai'') ?msgs) = Inr pong
      \<and> openai_token_usage (resolve_model unpriced None ''openai'') pong = Inr ?tu
      \<and> calculate_openai_cost unpriced 10 100 (resolve_model unpriced None ''openai'') = Inl ?e1"
    by (simp add: run_defs unpriced_def answering_def)
  have h2: "anthropic_messages unwritable ''ping'' None = Inr ?msgs
      \<and> messages_create unwritable a_client
           \<lparr>mk_model = resolve_model unwritable None ''anthropic'', mk_max_tokens = 1000,
             mk_messages = ?msgs\<rparr> = Inr claude_pong
      \<and> anthropic_token_usage claude_pong = Inr (token_usage claude_record)
      \<and> calculate_claude_cost unwritable 7 5 (resolve_model unwritable None ''anthropic'')
          = Inr (17 / 1000)
      \<and> APIResponse (content_text claude_pong) (token_usage claude_record) (17 / 1000)
           (clock unwritable (Suc (ticks w_init)) - clock unwritable (ticks w_init)) ''anthropic''
           (resolve_model unwritable None ''anthropic'') = Inr claude_record
      \<and> fst (track_request unwritable claude_record (ledger w_init)) = Some ?e2"
    by (simp add: run_defs unwritable_def answering_def claude_record_def)
  have f: "prompt_tokens ?tu = 10" "completion_tokens ?tu = 100"
    "prompt_tokens (token_usage claude_record) = 7"
    "completion_tokens (token_usage claude_record) = 5"
    by (simp_all add: claude_record_def)
  note i1 = query_llm_tracking_failure_returns_None
      [of "''openai''" unpriced "''ping''" None ?msgs a_client None pong ?tu ?e1 w_init]
  note i2 = query_llm_tracking_failure_returns_None
      [of _ unwritable "''ping''" None ?msgs a_client None _ "token_usage claude_record" ?e2
          w_init claude_pong]
  from i1 h1 f have 1:
    "fst (query_llm unpriced ''ping'' (Some a_client) None ''openai'' None w_init) = Inr None"
    by simp
  from h2 f have "calculate_claude_cost unwritable
                     (prompt_tokens (token_usage claude_record))
                     (completion_tokens (token_usage claude_record))
                      (resolve_model unwritable None ''anthropic'') = Inr (17 / 1000)
                \<and> APIResponse (content_text claude_pong) (token_usage claude_record) (17 / 1000)
                     (clock unwritable (Suc (ticks w_init)) - clock unwritable (ticks w_init))
                     ''anthropic'' (resolve_model unwritable None ''anthropic'') = Inr claude_record
                \<and> fst (track_request unwritable claude_record (ledger w_init)) = Some ?e2"
    by simp
  then have "\<exists>c a. calculate_claude_cost unwritable
                     (prompt_tokens (token_usage claude_record))
                     (completion_tokens (token_usage claude_record))
                      (resolve_model unwritable None ''anthropic'') = Inr c
                \<and> APIResponse (content_text claude_pong) (token_usage claude_record) c
                     (clock unwritable (Suc (ticks w_init)) - clock unwritable (ticks w_init))
                     ''anthropic'' (resolve_model unwritable None ''anthropic'') = Inr a
                \<and> fst (track_request unwritable a (ledger w_init)) = Some ?e2"
    by blast
  with i2 h2 have 2:
    "fst (query_llm unwritable ''ping'' (Some a_client) None ''anthropic'' None w_init) = Inr None"
    by blast
  from h1 h2 1 2 show ?thesis by blast
qed

subsection \<open>The command line\<close>

lemma query_llm_with_client_returns:
  "\<exists>r w2. query_llm d prompt (Some cl) mdl0 prov img w = (Inr r, w2)"
proof (cases "query_llm_try d prompt cl mdl0 prov img w")
  case (Pair res w1)
  then show ?thesis
    by (cases res) (simp_all add: query_llm_Some except_Exception_def)
qed

lemma run_taciturn:
  "query_llm taciturn ''ping'' (Some local_client) None ''local'' None w_init
     = (Inr (Some []),
        \<lparr>trace =
           [ChatCompletionsCreate local_client
              \<lparr>kw_model = Some ''Qwen/Qwen2.5-32B-Instruct-AWQ'',
               kw_messages = [\<lparr>role = ''user'', parts = [TextPart ''ping'']\<rparr>],
               kw_temperature = Some (7 / 10), kw_response_format = None,
               kw_reasoning_effort = None\<rparr>,
            CalculateOpenAICost 10 0 (Some ''Qwen/Qwen2.5-32B-Instruct-AWQ''),
            TrackRequest
              \<lparr>content = [],
               token_usage = \<lparr>prompt_tokens = 10, completion_tokens = 0, total_tokens = 10,
                               reasoning_tokens = None\<rparr>,
               cost = 1 / 100, thinking_time = 1, provider = ''local'',
               model = Some ''Qwen/Qwen2.5-32B-Instruct-AWQ''\<rparr>],
         ledger =
           [\<lparr>content = [],
             token_usage = \<lparr>prompt_tokens = 10, completion_tokens = 0, total_tokens = 10,
                             reasoning_tokens = None\<rparr>,
             cost = 1 / 100, thinking_time = 1, provider = ''local'',
             model = Some ''Qwen/Qwen2.5-32B-Instruct-AWQ''\<rparr>],
         ticks = 2\<rparr>)"
  by (simp add: run_defs taciturn_def answering_def local_client_def)

text \<open>
  C8, as the spec states it, fails on an empty response: \<open>query_llm\<close> succeeds with the
  empty text, and \<open>main\<close> prints the failure message instead of the response.
\<close>

theorem main_empty_response_counterexample:
  "create_llm_client taciturn (arg_provider ping_local) w_init = (Inr local_client, w_init)
   \<and> fst (query_llm taciturn (arg_prompt ping_local) (Some local_client)
             (main_model taciturn ping_local) (arg_provider ping_local) (arg_image ping_local)
             w_init) = Inr (Some [])
   \<and> fst (main taciturn ping_local w_init) = Inr ()
   \<and> last (trace (snd (main taciturn ping_local w_init)))
       = Stdout ''Failed to get response from LLM''
   \<and> Stdout [] \<notin> set (trace (snd (main taciturn ping_local w_init)))"
proof -
  have c: "create_llm_client taciturn ''local'' w_init = (Inr local_client, w_init)"
    by (simp add: create_llm_client_def local_client_def)
  have m: "main_model taciturn ping_local = None"
    by (simp add: main_model_def ping_local_def)
  have a: "arg_provider ping_local = ''local''" "arg_prompt ping_local = ''ping''"
    "arg_image ping_local = None"
    by (simp_all add: ping_local_def)
  have "main taciturn ping_local w_init
          = (Inr (), emit (Stdout ''Failed to get response from LLM'')
                       (snd (query_llm taciturn ''ping'' (Some local_client) None ''local'' None
                               w_init)))"
    by (simp add: main_def Let_def a m c run_taciturn)
  then show ?thesis
    by (simp add: a m c run_taciturn emit_def)
qed

text \<open>
  C8, amended. Once the client is created, \<open>query_llm\<close> does not raise, and \<open>main\<close>
  prints one line on standard output and returns normally: the response when it is a
  non-empty text, the message \<open>Failed to get response from LLM\<close> when \<open>query_llm\<close>
  returned \<open>None\<close> or the empty text.
\<close>

theorem main_prints_response_or_failure:
  assumes "create_llm_client d (arg_provider a) w = (Inr cl, w1)"
  shows "\<exists>r w2. query_llm d (arg_prompt a) (Some cl) (main_model d a) (arg_provider a)
                  (arg_image a) w1 = (Inr r, w2)
           \<and> main d a w
               = (Inr (),
                  emit (Stdout (case r of
                                  None \<Rightarrow> ''Failed to get response from LLM''
                                | Some s \<Rightarrow> if s = [] then ''Failed to get response from LLM''
                                            else s)) w2)"
proof -
  obtain r w2 where
    run: "query_llm d (arg_prompt a) (Some cl) (main_model d a) (arg_provider a)
            (arg_image a) w1 = (Inr r, w2)"
    using query_llm_with_client_returns by blast
  with assms have "main d a w
               = (Inr (),
                  emit (Stdout (case r of
                                  None \<Rightarrow> ''Failed to get response from LLM''
                                | Some s \<Rightarrow> if s = [] then ''Failed to get response from LLM''
                                            else s)) w2)"
    by (cases r) (simp_all add: main_def Let_def)
  with run show ?thesis by blast
qed

theorem main_prints_response_or_failure_witness:
  "create_llm_client answering (arg_provider ping_local) w_init = (Inr local_client, w_init)
   \<and> fst (main answering ping_local w_init) = Inr ()
   \<and> last (trace (snd (main answering ping_local w_init))) = Stdout ''pong''"
proof -
  have c: "create_llm_client answering (arg_provider ping_local) w_init
             = (Inr local_client, w_init)"
    by (simp add: create_llm_client_def local_client_def ping_local_def)
  have q: "fst (query_llm answering (arg_prompt ping_local) (Some local_client)
                  (main_model answering ping_local) (arg_provider ping_local)
                  (arg_image ping_local) w_init) = Inr (Some ''pong'')"
    by (simp add: run_defs answering_def ping_local_def main_model_def local_client_def)
  from main_prints_response_or_failure [OF c] obtain r w2 where
    run: "query_llm answering (arg_prompt ping_local) (Some local_client)
            (main_model answering ping_local) (arg_provider ping_local) (arg_image ping_local)
            w_init = (Inr r, w2)"
    and out: "main answering ping_local w_init
               = (Inr (),
                  emit (Stdout (case r of
                                  None \<Rightarrow> ''Failed to get response from LLM''
                                | Some s \<Rightarrow> if s = [] then ''Failed to get response from LLM''
                                            else s)) w2)"
    by blast
  from run q have "r = Some ''pong''" by simp
  with out c show ?thesis by (simp add: emit_def)
qed

subsection \<open>An unrecognized provider\<close>

text \<open>
  C10. When a client is supplied and the provider is none of openai, local, deepseek,
  azure, anthropic and gemini, \<open>query_llm\<close> returns \<open>None\<close>; it reads the clock once and
  does nothing else: the trace gains no event (no network request, no cost calculation,
  no \<open>track_request\<close>, not even an error message) and the ledger is the one it started
  from.
\<close>

theorem query_llm_unrecognized_provider:
  assumes "prov \<notin> set [''openai'', ''local'', ''deepseek'', ''azure'', ''anthropic'', ''gemini'']"
  shows "query_llm d prompt (Some cl) mdl0 prov img w = (Inr None, w\<lparr>ticks := Suc (ticks w)\<rparr>)
         \<and> trace (snd (query_llm d prompt (Some cl) mdl0 prov img w)) = trace w
         \<and> ledger (snd (query_llm d prompt (Some cl) mdl0 prov img w)) = ledger w"
  using assms
  by (simp add: query_llm_def query_llm_try_def time_time_def except_Exception_def)

theorem query_llm_unrecognized_provider_witness:
  "''mistral'' \<notin> set [''openai'', ''local'', ''deepseek'', ''azure'', ''anthropic'', ''gemini'']
   \<and> query_llm answering ''ping'' (Some a_client) (Some ''mistral-large'') ''mistral''
         (Some ''cat.png'') w_init
       = (Inr None, \<lparr>trace = [], ledger = [], ticks = 1\<rparr>)"
  using query_llm_unrecognized_provider
          [of "''mistral''" answering "''ping''" a_client "Some ''mistral-large''"
              "Some ''cat.png''" w_init]
  by (simp add: w_init_def)

end
